theory Spec2Isabelle
  imports Main "HOL-Library.Word"
begin

section \<open>Bytes, buffers and protocol constants\<close>

text \<open>
  A Node \<^verbatim>\<open>Buffer\<close> is a sequence of bytes. \<^verbatim>\<open>Buffer.from(array)\<close> stores every
  JavaScript number of the array reduced to its low 8 bits, which is what
  \<open>word_of_int\<close> does. The JavaScript numbers the driver computes with are
  modelled as \<open>int\<close>; all of them are integers on the code paths below.
  A JavaScript string is modelled as the list of its code points (\<open>nat\<close>), which
  is what \<^verbatim>\<open>for (const char of text)\<close> iterates over; \<open>js\<close> embeds an ASCII
  literal.
\<close>

type_synonym byte = "8 word"
type_synonym codepoint = nat
type_synonym jsstring = "codepoint list"

definition Buffer_from :: "int list \<Rightarrow> byte list" where
  "Buffer_from xs = map word_of_int xs"

definition js :: "string \<Rightarrow> jsstring" where
  "js s = map of_char s"

text \<open>
  \<^verbatim>\<open>char.charCodeAt(0)\<close> is the first UTF-16 code unit of the string: the code
  point itself below \<open>0x10000\<close>, the high surrogate above.
\<close>

definition charCodeAt0 :: "codepoint \<Rightarrow> int" where
  "charCodeAt0 c =
     (if c < 0x10000 then int c else int (0xD800 + (c - 0x10000) div 0x400))"

text \<open>The entries of \<^verbatim>\<open>Minitel.CODES\<close> that the modelled methods use.\<close>

abbreviation (input) FF :: int where "FF \<equiv> 0x0C"
abbreviation (input) FUNCTION_KEY_PREFIX :: int where "FUNCTION_KEY_PREFIX \<equiv> 0x13"
abbreviation (input) ESC :: int where "ESC \<equiv> 0x1B"
abbreviation (input) US :: int where "US \<equiv> 0x1F"
abbreviation (input) PRO1 :: int where "PRO1 \<equiv> 0x39"
abbreviation (input) PRO2 :: int where "PRO2 \<equiv> 0x3A"
abbreviation (input) PROG_VITESSE :: int where "PROG_VITESSE \<equiv> 0x6B"
abbreviation (input) SOH :: int where "SOH \<equiv> 0x01"
abbreviation (input) REP :: int where "REP \<equiv> 0x12"
abbreviation (input) ENQROM :: int where "ENQROM \<equiv> 0x7B"
abbreviation (input) CURSOR_OFFSET :: int where "CURSOR_OFFSET \<equiv> 0x40"

section \<open>The driver object and its environment\<close>

text \<open>
  Errors are values. Each constructor stands for one \<^verbatim>\<open>throw\<close> or one rejected
  promise of \<^verbatim>\<open>minitel.js\<close>, but the last: \<open>NeverSettles\<close> is no error, it stands for
  a promise that is neither resolved nor rejected. An \<^verbatim>\<open>await\<close> on it never resumes, so
  the calling method never settles either and no \<^verbatim>\<open>catch\<close> block runs.
\<close>

datatype error =
    ConnectionError             \<comment> \<open>\<^verbatim>\<open>Erreur de connexion\<close>: the serial port did not open\<close>
  | NoResponse                  \<comment> \<open>\<^verbatim>\<open>Pas de reponse du Minitel\<close>\<close>
  | DetectionFailed             \<comment> \<open>\<^verbatim>\<open>Impossible de detecter le Minitel sur aucune vitesse\<close>\<close>
  | UnsupportedSpeed int        \<comment> \<open>\<^verbatim>\<open>Vitesse non supportee\<close>\<close>
  | ReconnectError              \<comment> \<open>\<^verbatim>\<open>Erreur de reconnexion\<close>\<close>
  | NotConnected                \<comment> \<open>\<^verbatim>\<open>Non connecte au Minitel\<close>\<close>
  | WriteError                  \<comment> \<open>\<^verbatim>\<open>Erreur d'ecriture\<close>: the port reported an error\<close>
  | NullPort                    \<comment> \<open>a \<^verbatim>\<open>TypeError\<close>: \<^verbatim>\<open>this.port\<close> is \<^verbatim>\<open>null\<close>\<close>
  | InvalidCursorPosition       \<comment> \<open>\<^verbatim>\<open>Position curseur invalide\<close>\<close>
  | InvalidFormat jsstring "jsstring list"
                                \<comment> \<open>\<^verbatim>\<open>Format invalide\<close>: the argument and the valid names\<close>
  | WaitTimeout                 \<comment> \<open>\<^verbatim>\<open>Timeout en attente de reponse du Minitel\<close>\<close>
  | NeverSettles                \<comment> \<open>the promise stays pending for ever\<close>

text \<open>
  What the serial line sees of one driver, in order: ports opened and closed, and the
  buffers handed to \<^verbatim>\<open>port.write\<close>. The console lines of the connection sequence
  are kept the same way.
\<close>

datatype transport_event =
    Opened int | OpenFailed int | Closed int | Wrote "byte list"

datatype console_line =
    LogConnected int | LogUpgraded int int | LogUpgradeFailed error

datatype baud_option = Auto | Fixed int

record serial_port =
  baudRate :: int
  isOpen :: bool

text \<open>
  The device descriptor that \<^verbatim>\<open>parseDeviceIdentification\<close> builds. Its display
  name and the hexadecimal copy of the reply are only printed; they are left out.
\<close>

record device_info =
  maxSpeed :: int
  constructeur :: byte
  dtype :: byte
  version :: byte

text \<open>
  The value of \<^verbatim>\<open>this.onData\<close>: the application's callback, or the closure that the
  \<open>i\<close>-th call of \<^verbatim>\<open>_waitForResponse\<close> installed in its place.
\<close>

datatype handler = Application | WaitHandler nat

text \<open>The state of a promise; \<^verbatim>\<open>resolve\<close> and \<^verbatim>\<open>reject\<close> act on a pending one only.\<close>

datatype outcome = Pending | Resolved "byte list" | Rejected error

text \<open>
  A timer of \<^verbatim>\<open>setTimeout\<close>: when it is due, whether it is still armed (it is not
  once fired or cleared), and the callback it runs: the flush of the input buffer, the
  timeout of the \<open>i\<close>-th wait, or the timeout of the expected reply \<open>id\<close> with its
  promise.
\<close>

datatype timer_action = FlushInput | WaitExpired nat | ReplyExpired nat nat

record js_timer =
  deadline :: nat
  armed :: bool
  action :: timer_action

text \<open>
  The variables that the closures of one \<^verbatim>\<open>_waitForResponse\<close> call share
  (\<^verbatim>\<open>predicate\<close>, \<^verbatim>\<open>responseData\<close>, \<^verbatim>\<open>timer\<close>, \<^verbatim>\<open>originalOnData\<close>) and its promise.
\<close>

record wait_closure =
  predicate :: "byte list \<Rightarrow> bool"
  responseData :: "byte list"
  timer :: nat
  originalOnData :: handler
  promise :: nat

text \<open>An entry \<^verbatim>\<open>{ id, predicate, resolve, timeout }\<close> of \<^verbatim>\<open>this.expectedReplies\<close>.\<close>

record expected_reply =
  reply_id :: nat
  reply_predicate :: "byte list \<Rightarrow> bool"
  reply_resolve :: nat
  reply_timeout :: nat

text \<open>
  The fields of a \<^verbatim>\<open>Minitel\<close> object (down to \<open>onData\<close>), followed by the part of
  the world it acts on: the serial line, the console, the clock in milliseconds, the
  timers and promises created so far, the closures of the waits, and the events the
  application's \<^verbatim>\<open>onData\<close> callback has been called with.
\<close>

record minitel =
  optBaudRate :: baud_option
  autoUpgradeSpeed :: bool
  port :: "serial_port option"
  isConnected :: bool
  inputBuffer :: "byte list"
  bufferTimeout :: "nat option"
  deviceInfo :: "device_info option"
  currentBaudRate :: "int option"
  expectedReplies :: "expected_reply list"
  nextReplyId :: nat
  onData :: handler
  wire :: "transport_event list"
  console :: "console_line list"
  now :: nat
  timers :: "js_timer list"
  promises :: "outcome list"
  waits :: "wait_closure list"
  delivered :: "byte list list"

text \<open>
  \<^verbatim>\<open>new Minitel(portPath, options)\<close>: \<open>baud\<close> is \<^verbatim>\<open>options.baudRate || 'auto'\<close> and
  \<open>upgrade\<close> is \<^verbatim>\<open>options.autoUpgradeSpeed\<close> (\<open>True\<close> when not given).
\<close>

definition new_Minitel :: "baud_option \<Rightarrow> bool \<Rightarrow> minitel" where
  "new_Minitel baud upgrade =
     \<lparr> optBaudRate = baud, autoUpgradeSpeed = upgrade, port = None, isConnected = False,
       inputBuffer = [], bufferTimeout = None, deviceInfo = None, currentBaudRate = None,
       expectedReplies = [], nextReplyId = 0, onData = Application,
       wire = [], console = [], now = 0, timers = [], promises = [], waits = [],
       delivered = [] \<rparr>"

section \<open>Sending\<close>

text \<open>
  \<^verbatim>\<open>async write(data)\<close> (\<open>write\<close> is a keyword of Isabelle, hence the suffix). The
  method checks \<^verbatim>\<open>this.isConnected\<close> only and hands the data to \<^verbatim>\<open>this.port.write\<close>.
  An open serial port is modelled as accepting every write: the callback gets no error and
  the promise resolves once the data is drained. A \<^verbatim>\<open>SerialPort\<close> that is not open
  reports no error either: it keeps the data until the port opens, which a port that was
  closed or failed to open never does, so the callback is never called and the promise of
  \<^verbatim>\<open>write\<close> never settles.
\<close>

definition write_data :: "minitel \<Rightarrow> byte list \<Rightarrow> error + minitel" where
  "write_data st data =
     (if \<not> isConnected st then Inl NotConnected
      else case port st of
        None \<Rightarrow> Inl NullPort
      | Some p \<Rightarrow>
          if isOpen p then Inr (st\<lparr>wire := wire st @ [Wrote data]\<rparr>) else Inl NeverSettles)"

section \<open>Character codec\<close>

text \<open>The object literal \<^verbatim>\<open>accentMap\<close> of \<^verbatim>\<open>charToMinitel\<close>, keyed by code point.\<close>

definition accentMap :: "(codepoint \<times> int list) list" where
  "accentMap =
    [(0xE0, [0x19, 0x41, 0x61]), (0xE8, [0x19, 0x41, 0x65]), (0xF9, [0x19, 0x41, 0x75]),
     (0xC0, [0x19, 0x41, 0x41]), (0xC8, [0x19, 0x41, 0x45]), (0xD9, [0x19, 0x41, 0x55]),
     (0xE9, [0x19, 0x42, 0x65]), (0xC9, [0x19, 0x42, 0x45]),
     (0xE2, [0x19, 0x43, 0x61]), (0xEA, [0x19, 0x43, 0x65]), (0xEE, [0x19, 0x43, 0x69]),
     (0xF4, [0x19, 0x43, 0x6F]), (0xFB, [0x19, 0x43, 0x75]), (0xC2, [0x19, 0x43, 0x41]),
     (0xCA, [0x19, 0x43, 0x45]), (0xCE, [0x19, 0x43, 0x49]), (0xD4, [0x19, 0x43, 0x4F]),
     (0xDB, [0x19, 0x43, 0x55]),
     (0xEB, [0x19, 0x48, 0x65]), (0xEF, [0x19, 0x48, 0x69]), (0xFC, [0x19, 0x48, 0x75]),
     (0xCB, [0x19, 0x48, 0x45]), (0xCF, [0x19, 0x48, 0x49]), (0xDC, [0x19, 0x48, 0x55]),
     (0xE7, [0x19, 0x4B, 0x63]), (0xC7, [0x19, 0x4B, 0x43]),
     (0x153, [0x19, 0x7A]), (0x152, [0x19, 0x6A]),
     (0xA3, [0x19, 0x23]), (0xA7, [0x19, 0x27]), (0x2190, [0x19, 0x2C]),
     (0x2191, [0x19, 0x2D]), (0x2192, [0x19, 0x2E]), (0x2193, [0x19, 0x2F]),
     (0xB0, [0x19, 0x30]), (0xB1, [0x19, 0x31]), (0xBC, [0x19, 0x3C]),
     (0xBD, [0x19, 0x3D]), (0xBE, [0x19, 0x3E]), (0x3B2, [0x19, 0x7B]),
     (0x2019, [0x27]), (0x2018, [0x27]), (0x201D, [0x22]), (0x201C, [0x22]),
     (0xAB, [0x22]), (0xBB, [0x22]), (0x2039, [0x27]), (0x203A, [0x27])]"

text \<open>
  \<^verbatim>\<open>static charToMinitel(char)\<close> for a string \<^verbatim>\<open>char\<close> of one code point. No property
  that an object literal inherits has a one-character name, so \<^verbatim>\<open>accentMap[char]\<close>
  is the lookup in the table.
\<close>

definition charToMinitel :: "codepoint \<Rightarrow> int list" where
  "charToMinitel c =
     (case map_of accentMap c of
        Some bytes \<Rightarrow> bytes
      | None \<Rightarrow> (let code = charCodeAt0 c in if code \<le> 127 then [code] else [0x3F]))"

text \<open>\<^verbatim>\<open>async writeText(text)\<close>.\<close>

definition writeText :: "minitel \<Rightarrow> jsstring \<Rightarrow> error + minitel" where
  "writeText st text = write_data st (Buffer_from (concat (map charToMinitel text)))"

section \<open>Command encoder\<close>

text \<open>
  \<^verbatim>\<open>async writeRepeated(char, count)\<close> for a string \<^verbatim>\<open>char\<close> of one code point;
  \<^verbatim>\<open>char.repeat(count)\<close> is \<open>replicate (nat count) c\<close>. A rejected \<^verbatim>\<open>await\<close>
  ends the method with the same error.
\<close>

function writeRepeated :: "minitel \<Rightarrow> codepoint \<Rightarrow> int \<Rightarrow> error + minitel" where
  "writeRepeated st c count =
     (if count \<le> 0 then Inr st
      else if count \<le> 3 then writeText st (replicate (nat count) c)
      else if count \<le> 64 then
        write_data st (Buffer_from [charCodeAt0 c, REP, count - 1 + 64])
      else
        (case writeRepeated st c 64 of
           Inl e \<Rightarrow> Inl e
         | Inr st' \<Rightarrow> writeRepeated st' c (count - 64)))"
  by pat_completeness auto
termination
  by (relation "measure (\<lambda>(st, c, count). nat count)") auto

text \<open>\<^verbatim>\<open>static parseFunctionKey(data)\<close>; the result \<^verbatim>\<open>null\<close> is \<open>None\<close>.\<close>

definition parseFunctionKey :: "byte list \<Rightarrow> byte option" where
  "parseFunctionKey data =
     (if length data = 2 \<and> data ! 0 = word_of_int FUNCTION_KEY_PREFIX
      then Some (data ! 1) else None)"

text \<open>\<^verbatim>\<open>async clear()\<close>.\<close>

definition clear :: "minitel \<Rightarrow> error + minitel" where
  "clear st = write_data st (Buffer_from [FF])"

text \<open>\<^verbatim>\<open>async moveCursor(row, col)\<close>.\<close>

definition moveCursor :: "minitel \<Rightarrow> int \<Rightarrow> int \<Rightarrow> error + minitel" where
  "moveCursor st row col =
     (if row < 0 \<or> row > 24 \<or> col < 1 \<or> col > 40 then Inl InvalidCursorPosition
      else write_data st (Buffer_from [US, CURSOR_OFFSET + row, CURSOR_OFFSET + col]))"

text \<open>
  \<^verbatim>\<open>async setFormat(code)\<close>. The argument is a string or a number. The object
  literal \<^verbatim>\<open>formatCodes\<close> has the sixteen names as its own properties and, like
  every object literal, inherits the properties of \<^verbatim>\<open>Object.prototype\<close>: reading
  \<^verbatim>\<open>formatCodes[key]\<close> gives the code for an own name, a function or an object for an
  inherited name, and \<^verbatim>\<open>undefined\<close> otherwise.
\<close>

datatype format_arg = Str jsstring | Num int

datatype property = Own int | Inherited | Undefined

definition formatCodes :: "(jsstring \<times> int) list" where
  "formatCodes =
    [(js ''white'', 0x47), (js ''very-light'', 0x43), (js ''light'', 0x46),
     (js ''medium-light'', 0x42), (js ''medium'', 0x45), (js ''medium-dark'', 0x41),
     (js ''dark'', 0x44), (js ''black'', 0x40),
     (js ''white-background'', 0x57), (js ''black-background'', 0x50),
     (js ''normal'', 0x4C), (js ''double-height'', 0x4D), (js ''double-width'', 0x4E),
     (js ''double'', 0x4F),
     (js ''blink'', 0x48), (js ''steady'', 0x49)]"

definition objectPrototypeKeys :: "jsstring list" where
  "objectPrototypeKeys =
    map js [''constructor'', ''__proto__'', ''hasOwnProperty'', ''isPrototypeOf'',
            ''propertyIsEnumerable'', ''toLocaleString'', ''toString'', ''valueOf'',
            ''__defineGetter__'', ''__defineSetter__'', ''__lookupGetter__'',
            ''__lookupSetter__'']"

definition formatCodes_get :: "jsstring \<Rightarrow> property" where
  "formatCodes_get key =
     (case map_of formatCodes key of
        Some v \<Rightarrow> Own v
      | None \<Rightarrow> if key \<in> set objectPrototypeKeys then Inherited else Undefined)"

text \<open>
  \<^verbatim>\<open>String.prototype.toLowerCase\<close> follows the Unicode case mappings; \<open>setFormat\<close>
  takes it as the parameter \<open>toLowerCase\<close>. On a string of ASCII characters it is
  \<open>asciiLower\<close>. An inherited property is not a number: \<^verbatim>\<open>Buffer.from\<close> stores it
  as the byte 0.
\<close>

definition asciiLower :: "jsstring \<Rightarrow> jsstring" where
  "asciiLower s = map (\<lambda>c. if 0x41 \<le> c \<and> c \<le> 0x5A then c + 0x20 else c) s"

definition setFormat ::
  "(jsstring \<Rightarrow> jsstring) \<Rightarrow> minitel \<Rightarrow> format_arg \<Rightarrow> error + minitel" where
  "setFormat toLowerCase st code =
     (case code of
        Num n \<Rightarrow> write_data st (Buffer_from [ESC, n])
      | Str s \<Rightarrow>
          (case formatCodes_get (toLowerCase s) of
             Undefined \<Rightarrow> Inl (InvalidFormat s (map fst formatCodes))
           | Own numericCode \<Rightarrow> write_data st (Buffer_from [ESC, numericCode])
           | Inherited \<Rightarrow> write_data st (Buffer_from [ESC, 0])))"

text \<open>
  \<open>ready\<close>: the driver is connected and its port is open, so that \<^verbatim>\<open>write\<close> sends.
  \<open>connected_at baud\<close> is such a driver, with nothing sent yet; it is used for concrete
  inputs.
\<close>

definition ready :: "minitel \<Rightarrow> bool" where
  "ready st = (isConnected st \<and> (case port st of None \<Rightarrow> False | Some p \<Rightarrow> isOpen p))"

definition connected_at :: "int \<Rightarrow> minitel" where
  "connected_at baud =
     (new_Minitel Auto True)
       \<lparr> port := Some \<lparr> baudRate = baud, isOpen = True \<rparr>, isConnected := True,
         currentBaudRate := Some baud \<rparr>"

section \<open>Timers and promises\<close>

text \<open>
  \<^verbatim>\<open>setTimeout(callback, ms)\<close> returns the handle of the new timer;
  \<^verbatim>\<open>clearTimeout\<close> disarms a timer and does nothing to one that has fired.
  \<^verbatim>\<open>resolve\<close> and \<^verbatim>\<open>reject\<close> settle a promise once.
\<close>

definition setTimeout :: "minitel \<Rightarrow> timer_action \<Rightarrow> nat \<Rightarrow> nat \<times> minitel" where
  "setTimeout st act ms =
     (length (timers st),
      st\<lparr>timers := timers st @ [\<lparr>deadline = now st + ms, armed = True, action = act\<rparr>]\<rparr>)"

definition clearTimeout :: "minitel \<Rightarrow> nat \<Rightarrow> minitel" where
  "clearTimeout st t =
     (if t < length (timers st)
      then st\<lparr>timers := (timers st)[t := (timers st ! t)\<lparr>armed := False\<rparr>]\<rparr>
      else st)"

definition resolve :: "minitel \<Rightarrow> nat \<Rightarrow> byte list \<Rightarrow> minitel" where
  "resolve st p v =
     (if p < length (promises st) \<and> promises st ! p = Pending
      then st\<lparr>promises := (promises st)[p := Resolved v]\<rparr>
      else st)"

definition reject :: "minitel \<Rightarrow> nat \<Rightarrow> error \<Rightarrow> minitel" where
  "reject st p e =
     (if p < length (promises st) \<and> promises st ! p = Pending
      then st\<lparr>promises := (promises st)[p := Rejected e]\<rparr>
      else st)"

section \<open>Waiting for a reply\<close>

text \<open>
  The class body defines \<^verbatim>\<open>_waitForResponse\<close> twice. In a JavaScript class the later
  definition replaces the earlier one, so every call runs the second definition,
  \<open>waitForResponse\<close> below: it puts a closure in the place of \<^verbatim>\<open>this.onData\<close> and
  never touches \<^verbatim>\<open>this.expectedReplies\<close>. The result is the promise and the new
  state. (An Isabelle name cannot start with an underscore.)
\<close>

definition waitForResponse ::
  "minitel \<Rightarrow> (byte list \<Rightarrow> bool) \<Rightarrow> nat \<Rightarrow> nat \<times> minitel" where
  "waitForResponse st pred timeout =
     (let p = length (promises st);
          w = length (waits st);
          original = onData st;
          st1 = st\<lparr>promises := promises st @ [Pending], onData := WaitHandler w\<rparr>;
          (t, st2) = setTimeout st1 (WaitExpired w) timeout
      in (p, st2\<lparr>waits := waits st2 @
                 [\<lparr>predicate = pred, responseData = [], timer = t,
                   originalOnData = original, promise = p\<rparr>]\<rparr>))"

text \<open>\<^verbatim>\<open>cleanup\<close> of the \<open>w\<close>-th wait: clear its timer and restore the saved handler.\<close>

definition cleanup :: "minitel \<Rightarrow> nat \<Rightarrow> minitel" where
  "cleanup st w =
     (clearTimeout st (timer (waits st ! w)))\<lparr>onData := originalOnData (waits st ! w)\<rparr>"

text \<open>The closure that the \<open>w\<close>-th wait installed as \<^verbatim>\<open>this.onData\<close>, called with an event.\<close>

definition waitHandler :: "minitel \<Rightarrow> nat \<Rightarrow> byte list \<Rightarrow> minitel" where
  "waitHandler st w data =
     (if w < length (waits st) then
        (let c = waits st ! w;
             buffer = responseData c @ data;
             st1 = st\<lparr>waits := (waits st)[w := c\<lparr>responseData := buffer\<rparr>]\<rparr>
         in if predicate c buffer then resolve (cleanup st1 w) (promise c) buffer else st1)
      else st)"

text \<open>The timer callback of the \<open>w\<close>-th wait.\<close>

definition waitExpired :: "minitel \<Rightarrow> nat \<Rightarrow> minitel" where
  "waitExpired st w =
     (if w < length (waits st)
      then reject (cleanup st w) (promise (waits st ! w)) WaitTimeout
      else st)"

text \<open>
  The first definition of \<^verbatim>\<open>_waitForResponse\<close>, which no call reaches: it registers
  an entry in \<^verbatim>\<open>this.expectedReplies\<close>; its timer callback removes the entry by its
  id and rejects.
\<close>

definition waitForResponse_shadowed ::
  "minitel \<Rightarrow> (byte list \<Rightarrow> bool) \<Rightarrow> nat \<Rightarrow> nat \<times> minitel" where
  "waitForResponse_shadowed st pred timeoutMs =
     (let p = length (promises st);
          ident = nextReplyId st;
          st1 = st\<lparr>promises := promises st @ [Pending]\<rparr>;
          (t, st2) = setTimeout st1 (ReplyExpired ident p) timeoutMs
      in (p, st2\<lparr>nextReplyId := ident + 1,
                 expectedReplies := expectedReplies st2 @
                   [\<lparr>reply_id = ident, reply_predicate = pred, reply_resolve = p,
                     reply_timeout = t\<rparr>]\<rparr>))"

text \<open>\<^verbatim>\<open>Array.prototype.findIndex\<close>; the result \<open>-1\<close> is \<open>None\<close>.\<close>

fun findIndex :: "('a \<Rightarrow> bool) \<Rightarrow> 'a list \<Rightarrow> nat option" where
  "findIndex P [] = None"
| "findIndex P (x # xs) = (if P x then Some 0 else map_option Suc (findIndex P xs))"

definition replyExpired :: "minitel \<Rightarrow> nat \<Rightarrow> nat \<Rightarrow> minitel" where
  "replyExpired st ident p =
     reject (st\<lparr>expectedReplies :=
                 (case findIndex (\<lambda>r. reply_id r = ident) (expectedReplies st) of
                    None \<Rightarrow> expectedReplies st
                  | Some i \<Rightarrow> take i (expectedReplies st) @ drop (Suc i) (expectedReplies st))\<rparr>)
       p WaitTimeout"

section \<open>Input framer\<close>

text \<open>
  \<^verbatim>\<open>this.onData(bufferedData)\<close>: the application's callback is modelled by the list of
  the events it was called with.
\<close>

definition call_onData :: "minitel \<Rightarrow> byte list \<Rightarrow> minitel" where
  "call_onData st data =
     (case onData st of
        Application \<Rightarrow> st\<lparr>delivered := delivered st @ [data]\<rparr>
      | WaitHandler w \<Rightarrow> waitHandler st w data)"

text \<open>
  The timer callback of \<^verbatim>\<open>handleInputData\<close>. Its loop over
  \<^verbatim>\<open>this.expectedReplies\<close> stops at the first entry whose predicate holds for the
  flushed bytes.
\<close>

definition flushInput :: "minitel \<Rightarrow> minitel" where
  "flushInput st =
     (if inputBuffer st \<noteq> [] then
        (let bufferedData = inputBuffer st;
             st1 = st\<lparr>inputBuffer := []\<rparr>
         in case findIndex (\<lambda>expected. reply_predicate expected bufferedData)
                   (expectedReplies st1) of
              Some i \<Rightarrow>
                (let expected = expectedReplies st1 ! i;
                     st2 = clearTimeout st1 (reply_timeout expected);
                     st3 = st2\<lparr>expectedReplies :=
                             take i (expectedReplies st2) @ drop (Suc i) (expectedReplies st2)\<rparr>
                 in resolve st3 (reply_resolve expected) bufferedData)
            | None \<Rightarrow> call_onData st1 bufferedData)
      else st)"

text \<open>\<^verbatim>\<open>handleInputData(data)\<close>, the listener of the port's \<^verbatim>\<open>data\<close> event.\<close>

definition handleInputData :: "minitel \<Rightarrow> byte list \<Rightarrow> minitel" where
  "handleInputData st data =
     (let st1 = st\<lparr>inputBuffer := inputBuffer st @ data\<rparr>;
          st2 = (case bufferTimeout st1 of Some t \<Rightarrow> clearTimeout st1 t | None \<Rightarrow> st1);
          (t, st3) = setTimeout st2 FlushInput 50
      in st3\<lparr>bufferTimeout := Some t\<rparr>)"

section \<open>The event loop\<close>

text \<open>
  Time is the clock \<open>now\<close> in milliseconds. A timer fires once, when the clock reaches
  its deadline, unless it was cleared; timers that are due together fire in the order of
  their deadlines, and in the order of their creation when the deadlines are equal.
  \<open>advance st t\<close> lets the time pass until \<open>t\<close>; \<open>receive st t data\<close> is the port's
  \<^verbatim>\<open>data\<close> event with the chunk \<open>data\<close> at time \<open>t\<close>, after the timers due by then.
\<close>

definition runTimer :: "minitel \<Rightarrow> timer_action \<Rightarrow> minitel" where
  "runTimer st act =
     (case act of
        FlushInput \<Rightarrow> flushInput st
      | WaitExpired w \<Rightarrow> waitExpired st w
      | ReplyExpired ident p \<Rightarrow> replyExpired st ident p)"

definition fireTimer :: "nat \<Rightarrow> minitel \<Rightarrow> minitel" where
  "fireTimer i st =
     (if i < length (timers st) \<and> armed (timers st ! i)
      then runTimer (clearTimeout st i) (action (timers st ! i))
      else st)"

definition dueTimers :: "minitel \<Rightarrow> nat \<Rightarrow> nat list" where
  "dueTimers st t =
     sort_key (\<lambda>i. deadline (timers st ! i))
       (filter (\<lambda>i. armed (timers st ! i) \<and> deadline (timers st ! i) \<le> t)
          [0..<length (timers st)])"

definition advance :: "minitel \<Rightarrow> nat \<Rightarrow> minitel" where
  "advance st t = (fold fireTimer (dueTimers st t) st)\<lparr>now := max (now st) t\<rparr>"

definition receive :: "minitel \<Rightarrow> nat \<Rightarrow> byte list \<Rightarrow> minitel" where
  "receive st t data = handleInputData (advance st t) data"

section \<open>Identification and connection\<close>

text \<open>
  The predicate that \<^verbatim>\<open>_queryDevice\<close> waits for:
  \<^verbatim>\<open>data.length >= 5 && data[0] === Minitel.CODES.SOH\<close>.
\<close>

definition identificationReply :: "byte list \<Rightarrow> bool" where
  "identificationReply data = (length data \<ge> 5 \<and> data ! 0 = word_of_int SOH)"

definition bytes_of :: "string \<Rightarrow> byte list" where
  "bytes_of s = map of_char s"

text \<open>
  The table \<^verbatim>\<open>typeLookup\<close> of \<^verbatim>\<open>parseDeviceIdentification\<close>, with the maximum speed
  of each entry; the key is the manufacturer letter followed by the type letter.
\<close>

definition typeLookup :: "(byte list \<times> int) list" where
  "typeLookup =
    [(bytes_of ''Cb'', 1200), (bytes_of ''Cc'', 1200), (bytes_of ''Cr'', 1200),
     (bytes_of ''Bc'', 1200), (bytes_of ''Br'', 1200), (bytes_of ''Bs'', 1200),
     (bytes_of ''Cu'', 4800), (bytes_of ''Bu'', 4800), (bytes_of ''Cd'', 4800),
     (bytes_of ''Cf'', 4800), (bytes_of ''Cw'', 4800), (bytes_of ''Cv'', 9600),
     (bytes_of ''Bv'', 9600), (bytes_of ''Cz'', 4800), (bytes_of ''Bz'', 9600),
     (bytes_of ''Ay'', 4800), (bytes_of ''Cp'', 9600)]"

text \<open>\<^verbatim>\<open>static parseDeviceIdentification(data)\<close>; the result \<^verbatim>\<open>null\<close> is \<open>None\<close>.\<close>

definition parseDeviceIdentification :: "byte list \<Rightarrow> device_info option" where
  "parseDeviceIdentification data =
     (if length data < 5 then None
      else if data ! 0 \<noteq> word_of_int SOH then None
      else
        (case map_of typeLookup [data ! 1, data ! 2] of
           Some speed \<Rightarrow>
             Some \<lparr>maxSpeed = speed, constructeur = data ! 1, dtype = data ! 2,
                   version = data ! 3\<rparr>
         | None \<Rightarrow>
             (let isBistandard = (data ! 2 = of_char CHR ''u'' \<or> data ! 2 = of_char CHR ''w'')
              in Some \<lparr>maxSpeed = (if isBistandard then 4800 else 1200),
                       constructeur = data ! 1, dtype = data ! 2, version = data ! 3\<rparr>)))"

text \<open>
  What the terminal and the line do is a parameter of the connection sequence: whether
  opening the serial port at a speed reports an error, and the input events that the
  input framer flushes after the port was opened at a speed, each with the time in
  milliseconds since the wait for the reply began.
\<close>

record environment =
  openFails :: "int \<Rightarrow> bool"
  incoming :: "int \<Rightarrow> (nat \<times> byte list) list"

text \<open>
  One wait of \<^verbatim>\<open>_waitForResponse\<close> seen from its caller. The closure appends every
  flushed event to \<^verbatim>\<open>responseData\<close> and resolves with all of it as soon as the
  predicate holds for it (\<open>waitHandler\<close>); the events that come before the timeout are the
  ones it sees, and when none makes the predicate hold the timeout rejects (\<open>None\<close>).
\<close>

fun awaitReply :: "(byte list \<Rightarrow> bool) \<Rightarrow> byte list \<Rightarrow> byte list list \<Rightarrow> byte list option" where
  "awaitReply pred acc [] = None"
| "awaitReply pred acc (data # rest) =
     (let buffer = acc @ data
      in if pred buffer then Some buffer else awaitReply pred buffer rest)"

definition flushedBefore :: "nat \<Rightarrow> (nat \<times> byte list) list \<Rightarrow> byte list list" where
  "flushedBefore timeout events = map snd (takeWhile (\<lambda>(t, data). t < timeout) events)"

text \<open>\<^verbatim>\<open>async _closePort()\<close>.\<close>

definition closePort :: "minitel \<Rightarrow> minitel" where
  "closePort st =
     (case port st of
        None \<Rightarrow> st
      | Some p \<Rightarrow>
          if isOpen p
          then st\<lparr>port := Some (p\<lparr>isOpen := False\<rparr>), wire := wire st @ [Closed (baudRate p)]\<rparr>
          else st)"

text \<open>
  \<^verbatim>\<open>async _queryDevice(timeout)\<close>, called with the port just opened at \<open>baud\<close>. The
  query goes to \<^verbatim>\<open>this.port.write\<close> directly. A timeout gives \<^verbatim>\<open>null\<close>.
\<close>

definition queryDevice ::
  "minitel \<Rightarrow> environment \<Rightarrow> int \<Rightarrow> nat \<Rightarrow> device_info option \<times> minitel" where
  "queryDevice st env baud timeout =
     (let st1 = st\<lparr>wire := wire st @ [Wrote (Buffer_from [ESC, PRO1, ENQROM])]\<rparr>
      in case awaitReply identificationReply [] (flushedBefore timeout (incoming env baud)) of
           None \<Rightarrow> (None, st1)
         | Some response \<Rightarrow> (parseDeviceIdentification response, st1))"

text \<open>
  \<^verbatim>\<open>async _upgradeSpeed(newSpeed)\<close>. The result is the error thrown, if any, and the
  state the driver is left in. The two pauses (\<^verbatim>\<open>_sleep\<close>) send and change nothing.
\<close>

definition speedCodes :: "(int \<times> int) list" where
  "speedCodes = [(300, 0x52), (1200, 0x64), (4800, 0x76), (9600, 0x7F)]"

definition upgradeSpeed :: "minitel \<Rightarrow> environment \<Rightarrow> int \<Rightarrow> error option \<times> minitel" where
  "upgradeSpeed st env newSpeed =
     (case map_of speedCodes newSpeed of
        None \<Rightarrow> (Some (UnsupportedSpeed newSpeed), st)
      | Some speedCode \<Rightarrow>
          (case write_data st (Buffer_from [ESC, PRO2, PROG_VITESSE, speedCode]) of
             Inl e \<Rightarrow> (Some e, st)
           | Inr st1 \<Rightarrow>
               (let st2 = (closePort st1)\<lparr>currentBaudRate := Some newSpeed\<rparr>
                in if openFails env newSpeed
                   then (Some ReconnectError,
                         st2\<lparr>port := Some \<lparr>baudRate = newSpeed, isOpen = False\<rparr>,
                             wire := wire st2 @ [OpenFailed newSpeed]\<rparr>)
                   else (None,
                         st2\<lparr>port := Some \<lparr>baudRate = newSpeed, isOpen = True\<rparr>,
                             wire := wire st2 @ [Opened newSpeed]\<rparr>))))"

text \<open>
  \<^verbatim>\<open>async _connectAtBaudRate(baudRate, isAutoDetect)\<close>. The result is the error the
  promise is rejected with, if any, and the state the driver is left in. The inner
  \<^verbatim>\<open>catch\<close> around \<^verbatim>\<open>_upgradeSpeed\<close> sees the errors it throws, not a promise that
  never settles.
\<close>

definition connectAtBaudRate ::
  "minitel \<Rightarrow> environment \<Rightarrow> int \<Rightarrow> bool \<Rightarrow> error option \<times> minitel" where
  "connectAtBaudRate st env baud isAutoDetect =
     (let st1 = st\<lparr>currentBaudRate := Some baud\<rparr>
      in if openFails env baud
         then (Some ConnectionError,
               st1\<lparr>port := Some \<lparr>baudRate = baud, isOpen = False\<rparr>,
                   wire := wire st1 @ [OpenFailed baud]\<rparr>)
         else
           (let st2 = st1\<lparr>port := Some \<lparr>baudRate = baud, isOpen = True\<rparr>,
                          wire := wire st1 @ [Opened baud]\<rparr>;
                timeout = (if isAutoDetect then 200 else 2000);
                (found, st3) = queryDevice st2 env baud timeout
            in case found of
                 None \<Rightarrow> (Some NoResponse, st3)
               | Some info \<Rightarrow>
                   (let st4 = st3\<lparr>deviceInfo := Some info, isConnected := True,
                                  console := console st3 @ [LogConnected baud]\<rparr>
                    in case clear st4 of
                         Inl e \<Rightarrow> (Some e, st4)
                       | Inr st5 \<Rightarrow>
                           if autoUpgradeSpeed st5 \<and> maxSpeed info > baud
                           then
                             (case upgradeSpeed st5 env (maxSpeed info) of
                                (None, st6) \<Rightarrow>
                                  (None, st6\<lparr>console := console st6 @
                                               [LogUpgraded baud (maxSpeed info)]\<rparr>)
                              | (Some e, st6) \<Rightarrow>
                                  if e = NeverSettles then (Some NeverSettles, st6)
                                  else (None, st6\<lparr>console := console st6 @
                                                    [LogUpgradeFailed e]\<rparr>))
                           else (None, st5))))"

text \<open>
  \<^verbatim>\<open>async connect()\<close>. \<open>connectAuto\<close> is the loop over the candidate speeds: the first
  attempt that succeeds ends it, a failed attempt has its port closed when it is open,
  and the error after the loop is the one thrown when no attempt succeeded. An attempt
  that never settles stops the loop where it is.
\<close>

fun connectAuto :: "minitel \<Rightarrow> environment \<Rightarrow> int list \<Rightarrow> error option \<times> minitel" where
  "connectAuto st env [] = (Some DetectionFailed, st)"
| "connectAuto st env (rate # rest) =
     (case connectAtBaudRate st env rate True of
        (None, st') \<Rightarrow> (None, st')
      | (Some err, st') \<Rightarrow>
          if err = NeverSettles then (Some NeverSettles, st')
          else connectAuto (closePort st') env rest)"

definition connect :: "minitel \<Rightarrow> environment \<Rightarrow> error option \<times> minitel" where
  "connect st env =
     (case optBaudRate st of
        Auto \<Rightarrow> connectAuto st env [1200, 4800, 9600]
      | Fixed baud \<Rightarrow> connectAtBaudRate st env baud False)"

text \<open>
  Vocabulary for the probing sequence, in terms of the input events that the framer
  flushes within the 200 ms of automatic detection at a candidate speed.

  The candidate \<^emph>\<open>replies at once\<close> with \<open>r\<close> when its port opens and the first of these
  events is an identification reply \<open>r\<close>: nothing was received before it.

  The candidate gives \<^emph>\<open>no reply\<close> when its port does not open, or when no identification reply
  can be made out of these events: none of them is one, and neither is what has been
  received up to any of them.

  A candidate that is neither (an identification reply flushed after other input, or
  spread over several events) is left out of both.
\<close>

definition repliesAtOnce :: "environment \<Rightarrow> int \<Rightarrow> byte list option" where
  "repliesAtOnce env baud =
     (if openFails env baud then None
      else case flushedBefore 200 (incoming env baud) of
             [] \<Rightarrow> None
           | r # rest \<Rightarrow> if identificationReply r then Some r else None)"

definition noReply :: "environment \<Rightarrow> int \<Rightarrow> bool" where
  "noReply env baud =
     (openFails env baud \<or>
      (let events = flushedBefore 200 (incoming env baud)
       in list_all (\<lambda>e. \<not> identificationReply e) events \<and>
          list_all (\<lambda>k. \<not> identificationReply (concat (take k events)))
            [1 ..< Suc (length events)]))"

text \<open>
  \<open>probeReply\<close> is what the wait of \<^verbatim>\<open>_queryDevice\<close> resolves with at a candidate, if it
  does; \<open>failedProbe\<close> is what the line sees of a candidate whose attempt fails.
\<close>

definition probeReply :: "environment \<Rightarrow> int \<Rightarrow> byte list option" where
  "probeReply env baud =
     (if openFails env baud then None
      else awaitReply identificationReply [] (flushedBefore 200 (incoming env baud)))"

definition failedProbe :: "environment \<Rightarrow> int \<Rightarrow> transport_event list" where
  "failedProbe env baud =
     (if openFails env baud then [OpenFailed baud]
      else [Opened baud, Wrote (Buffer_from [ESC, PRO1, ENQROM]), Closed baud])"

text \<open>The state a candidate that does not answer leaves behind, once its port is closed.\<close>

definition afterFailedProbe :: "environment \<Rightarrow> minitel \<Rightarrow> int \<Rightarrow> minitel" where
  "afterFailedProbe env st baud =
     st\<lparr>currentBaudRate := Some baud, port := Some \<lparr>baudRate = baud, isOpen = False\<rparr>,
        wire := wire st @ failedProbe env baud\<rparr>"

text \<open>
  Concrete situations used below. A Minitel 2 (identification \<^verbatim>\<open>Cv;\<close>, maximum speed
  9600) that answers at 1200 bauds 120 ms after the query; a Minitel 1B (\<^verbatim>\<open>Cu2\<close>,
  maximum speed 4800) that answers at 4800 bauds only, noise arriving at the other
  speeds; the same Minitel 1B answering at 1200 bauds while the port cannot be opened
  again at 4800; and a line on which nothing answers.
\<close>

definition minitel2_at_1200 :: environment where
  "minitel2_at_1200 =
     \<lparr> openFails = (\<lambda>baud. False),
       incoming = (\<lambda>baud. if baud = 1200 then [(120, [0x01, 0x43, 0x76, 0x3B, 0x04])] else []) \<rparr>"

definition minitel1b_at_4800 :: environment where
  "minitel1b_at_4800 =
     \<lparr> openFails = (\<lambda>baud. False),
       incoming = (\<lambda>baud. if baud = 4800 then [(120, [0x01, 0x43, 0x75, 0x32, 0x04])]
                          else [(30, [0x7F])]) \<rparr>"

definition minitel1b_reopen_fails :: environment where
  "minitel1b_reopen_fails =
     \<lparr> openFails = (\<lambda>baud. baud = 4800),
       incoming = (\<lambda>baud. if baud = 1200 then [(120, [0x01, 0x43, 0x75, 0x32, 0x04])] else []) \<rparr>"

definition silent_line :: environment where
  "silent_line = \<lparr> openFails = (\<lambda>baud. False), incoming = (\<lambda>baud. []) \<rparr>"

text \<open>
  A Minitel 1B that answers at 1200 bauds 150 ms after the query, a stray byte having been
  received 60 ms after the query.
\<close>

definition minitel1b_after_noise :: environment where
  "minitel1b_after_noise =
     \<lparr> openFails = (\<lambda>baud. False),
       incoming = (\<lambda>baud. if baud = 1200
                          then [(60, [0x00]), (150, [0x01, 0x43, 0x75, 0x32, 0x04])]
                          else []) \<rparr>"

text \<open>
  Two situations of the framer when the application's callback is installed and no
  reply is expected: \<open>quiet\<close>, no timer is armed; \<open>flush_pending st d\<close>, the only
  armed timer is the framer's, the last one created, due at \<open>d\<close>.
\<close>

definition quiet :: "minitel \<Rightarrow> bool" where
  "quiet st =
     (list_all (\<lambda>x. \<not> armed x) (timers st) \<and> onData st = Application \<and>
      expectedReplies st = [])"

definition flush_pending :: "minitel \<Rightarrow> nat \<Rightarrow> bool" where
  "flush_pending st d =
     (timers st \<noteq> [] \<and> list_all (\<lambda>x. \<not> armed x) (butlast (timers st)) \<and>
      last (timers st) = \<lparr>deadline = d, armed = True, action = FlushInput\<rparr> \<and>
      bufferTimeout st = Some (length (timers st) - 1) \<and>
      onData st = Application \<and> expectedReplies st = [])"

text \<open>
  Drivers with a wait outstanding, used as concrete inputs: one wait for an
  identification reply with a timeout of 200 ms, registered by the definition of
  \<^verbatim>\<open>_waitForResponse\<close> that runs and by the one that is shadowed; and two waits of
  1000 ms each, the second registered 1 ms after the first.
\<close>

definition waiting_driver :: minitel where
  "waiting_driver = snd (waitForResponse (new_Minitel Auto True) identificationReply 200)"

definition waiting_driver_shadowed :: minitel where
  "waiting_driver_shadowed =
     snd (waitForResponse_shadowed (new_Minitel Auto True) identificationReply 200)"

definition overlapping_waits :: minitel where
  "overlapping_waits =
     snd (waitForResponse
            (advance (snd (waitForResponse (new_Minitel Auto True) identificationReply 1000)) 1)
            identificationReply 1000)"

section \<open>Properties\<close>

subsection \<open>Sending on a connected driver\<close>

lemma write_data_ready:
  "ready st \<Longrightarrow> write_data st d = Inr (st\<lparr>wire := wire st @ [Wrote d]\<rparr>)"
  by (auto simp: ready_def write_data_def split: option.splits)

lemma write_data_not_InvalidFormat: "write_data st d \<noteq> Inl (InvalidFormat f names)"
  by (simp add: write_data_def split: option.splits)

lemma ready_wire [simp]: "ready (st\<lparr>wire := w\<rparr>) = ready st"
  by (simp add: ready_def)

lemma ready_connected_at [simp]: "ready (connected_at b)"
  by (simp add: ready_def connected_at_def new_Minitel_def)

lemma wire_connected_at [simp]: "wire (connected_at b) = []"
  by (simp add: connected_at_def new_Minitel_def)

lemma uint_byte: "0 \<le> x \<Longrightarrow> x < 256 \<Longrightarrow> uint (word_of_int x :: byte) = x"
  by (simp add: uint_word_of_int take_bit_eq_mod)

subsection \<open>Repeat compression\<close>

declare writeRepeated.simps [simp del]

lemma Buffer_from_replicate:
  "Buffer_from (concat (replicate k xs)) = concat (replicate k (Buffer_from xs))"
  by (induction k) (simp_all add: Buffer_from_def)

lemma writeRepeated_literal:
  assumes "ready st" "1 \<le> n" "n \<le> 3"
  shows "writeRepeated st c n =
    Inr (st\<lparr>wire := wire st @
      [Wrote (concat (replicate (nat n) (Buffer_from (charToMinitel c))))]\<rparr>)"
  using assms
  by (simp add: writeRepeated.simps [of st c n] writeText_def write_data_ready
      Buffer_from_replicate map_replicate_const)

lemma writeRepeated_rep:
  assumes "ready st" "4 \<le> n" "n \<le> 64"
  shows "writeRepeated st c n =
    Inr (st\<lparr>wire := wire st @
      [Wrote [word_of_int (charCodeAt0 c), 0x12, word_of_int (n - 1 + 0x40)]]\<rparr>)"
  using assms
  by (simp add: writeRepeated.simps [of st c n] write_data_ready Buffer_from_def)

text \<open>
  \<open>k\<close> full blocks of 64 come first, each the three bytes of a repeat command for 64;
  what is left is written by the call for the remaining count.
\<close>

lemma writeRepeated_split:
  assumes "ready st" "1 \<le> r"
  shows "writeRepeated st c (64 * int k + r) =
    writeRepeated
      (st\<lparr>wire := wire st @ replicate k (Wrote [word_of_int (charCodeAt0 c), 0x12, 0x7F])\<rparr>)
      c r"
  using assms
proof (induction k arbitrary: st)
  case 0
  then show ?case by simp
next
  case (Suc k)
  let ?b = "Wrote [word_of_int (charCodeAt0 c), 0x12, 0x7F]"
  let ?st1 = "st\<lparr>wire := wire st @ [?b]\<rparr>"
  have first: "writeRepeated st c 64 = Inr ?st1"
    using writeRepeated_rep [of st 64 c] Suc.prems by simp
  have "writeRepeated st c (64 * int (Suc k) + r) = writeRepeated ?st1 c (64 * int k + r)"
    using Suc.prems first
    by (subst writeRepeated.simps) (simp add: algebra_simps)
  also have "\<dots> = writeRepeated
      (?st1\<lparr>wire := wire ?st1 @ replicate k ?b\<rparr>) c r"
    using Suc.IH [of ?st1] Suc.prems by simp
  finally show ?case by (simp add: replicate_app_Cons_same)
qed

text \<open>
  What each branch writes on a connected driver with an open port, for a character \<open>c\<close>
  and a count \<open>n \<ge> 1\<close>: for \<open>n \<le> 3\<close> one write of the \<open>n\<close> literal encodings of
  \<open>c\<close> (\<open>charToMinitel\<close>); for \<open>4 \<le> n \<le> 64\<close> one write of exactly three bytes, the
  low 8 bits of \<^verbatim>\<open>char.charCodeAt(0)\<close>, \<open>0x12\<close> and \<open>n - 1 + 0x40\<close>; for \<open>n > 64\<close>,
  \<open>(n - 1) div 64\<close> repeat blocks for 64 followed by what the call for the remaining
  \<open>1..64\<close> repetitions writes, which makes \<open>ceil(n / 64)\<close> blocks in all.
\<close>

lemma writeRepeated_branches:
  "(ready st \<and> 1 \<le> n \<and> n \<le> 3 \<longrightarrow>
      writeRepeated st c n =
        Inr (st\<lparr>wire := wire st @
          [Wrote (concat (replicate (nat n) (Buffer_from (charToMinitel c))))]\<rparr>)) \<and>
   (ready st \<and> 4 \<le> n \<and> n \<le> 64 \<longrightarrow>
      writeRepeated st c n =
        Inr (st\<lparr>wire := wire st @
          [Wrote [word_of_int (charCodeAt0 c), 0x12, word_of_int (n - 1 + 0x40)]]\<rparr>) \<and>
      uint (word_of_int (charCodeAt0 c) :: byte) = charCodeAt0 c mod 256 \<and>
      uint (word_of_int (n - 1 + 0x40) :: byte) = n - 1 + 0x40) \<and>
   (ready st \<and> 64 < n \<longrightarrow>
      writeRepeated st c n =
        writeRepeated
          (st\<lparr>wire := wire st @
             replicate (nat ((n - 1) div 64))
               (Wrote [word_of_int (charCodeAt0 c), 0x12, 0x7F])\<rparr>)
          c (n - 64 * ((n - 1) div 64)) \<and>
      1 \<le> n - 64 * ((n - 1) div 64) \<and> n - 64 * ((n - 1) div 64) \<le> 64 \<and>
      nat ((n - 1) div 64) + 1 = nat ((n + 63) div 64))"
proof -
  have rep: "uint (word_of_int (charCodeAt0 c) :: byte) = charCodeAt0 c mod 256"
    by (simp add: uint_word_of_int take_bit_eq_mod)
  have dir: "uint (word_of_int (n - 1 + 0x40) :: byte) = n - 1 + 0x40" if "4 \<le> n" "n \<le> 64"
    using that uint_byte [of "n - 1 + 0x40"] by simp
  have split: "writeRepeated st c n =
        writeRepeated
          (st\<lparr>wire := wire st @
             replicate (nat ((n - 1) div 64))
               (Wrote [word_of_int (charCodeAt0 c), 0x12, 0x7F])\<rparr>)
          c (n - 64 * ((n - 1) div 64))" if "ready st" "64 < n"
  proof -
    have r: "1 \<le> n - 64 * ((n - 1) div 64)" by presburger
    have k: "0 \<le> (n - 1) div 64" using that by simp
    have "n = 64 * int (nat ((n - 1) div 64)) + (n - 64 * ((n - 1) div 64))"
      using k by simp
    then show ?thesis
      using writeRepeated_split [OF that(1) r, of c "nat ((n - 1) div 64)"] by simp
  qed
  have bounds: "1 \<le> n - 64 * ((n - 1) div 64) \<and> n - 64 * ((n - 1) div 64) \<le> 64"
    by presburger
  have count: "nat ((n - 1) div 64) + 1 = nat ((n + 63) div 64)" if "64 < n"
  proof -
    have "(n + 63) div 64 = ((n - 1) + 64) div 64" by simp
    also have "\<dots> = (n - 1) div 64 + 1" by (simp only: div_add_self2)
    finally have "(n + 63) div 64 = (n - 1) div 64 + 1" .
    moreover have "0 \<le> (n - 1) div 64" using that by simp
    ultimately show ?thesis by simp
  qed
  show ?thesis
  proof (intro conjI impI)
    assume "ready st \<and> 1 \<le> n \<and> n \<le> 3"
    then show "writeRepeated st c n =
        Inr (st\<lparr>wire := wire st @
          [Wrote (concat (replicate (nat n) (Buffer_from (charToMinitel c))))]\<rparr>)"
      using writeRepeated_literal by simp
  next
    assume "ready st \<and> 4 \<le> n \<and> n \<le> 64"
    then show "writeRepeated st c n =
        Inr (st\<lparr>wire := wire st @
          [Wrote [word_of_int (charCodeAt0 c), 0x12, word_of_int (n - 1 + 0x40)]]\<rparr>)"
      using writeRepeated_rep by simp
  next
    show "uint (word_of_int (charCodeAt0 c) :: byte) = charCodeAt0 c mod 256" by (rule rep)
  next
    assume "ready st \<and> 4 \<le> n \<and> n \<le> 64"
    then show "uint (word_of_int (n - 1 + 0x40) :: byte) = n - 1 + 0x40" using dir by simp
  next
    assume "ready st \<and> 64 < n"
    then show "writeRepeated st c n =
        writeRepeated
          (st\<lparr>wire := wire st @
             replicate (nat ((n - 1) div 64))
               (Wrote [word_of_int (charCodeAt0 c), 0x12, 0x7F])\<rparr>)
          c (n - 64 * ((n - 1) div 64))"
      using split by simp
  next
    show "1 \<le> n - 64 * ((n - 1) div 64)" using bounds by simp
  next
    show "n - 64 * ((n - 1) div 64) \<le> 64" using bounds by simp
  next
    assume "ready st \<and> 64 < n"
    then show "nat ((n - 1) div 64) + 1 = nat ((n + 63) div 64)" using count by simp
  qed
qed

text \<open>
  One sample per branch: three spaces and two \<open>U+00E9\<close> literally, 40 spaces as one
  repeat command, 130 spaces as two commands for 64 and two literal spaces.
\<close>

lemma writeRepeated_samples:
  "writeRepeated (connected_at 1200) 0x20 3 =
     Inr ((connected_at 1200)\<lparr>wire := [Wrote [0x20, 0x20, 0x20]]\<rparr>) \<and>
   writeRepeated (connected_at 1200) 0xE9 2 =
     Inr ((connected_at 1200)\<lparr>wire := [Wrote [0x19, 0x42, 0x65, 0x19, 0x42, 0x65]]\<rparr>) \<and>
   writeRepeated (connected_at 1200) 0x20 40 =
     Inr ((connected_at 1200)\<lparr>wire := [Wrote [0x20, 0x12, 0x67]]\<rparr>) \<and>
   writeRepeated (connected_at 1200) 0x20 130 =
     Inr ((connected_at 1200)\<lparr>wire :=
       [Wrote [0x20, 0x12, 0x7F], Wrote [0x20, 0x12, 0x7F], Wrote [0x20, 0x20]]\<rparr>)"
proof -
  let ?st = "connected_at 1200"
  have r: "ready ?st" by simp
  have a: "writeRepeated ?st 0x20 3 = Inr (?st\<lparr>wire := [Wrote [0x20, 0x20, 0x20]]\<rparr>)"
    using writeRepeated_branches [of ?st 3 "0x20"] r
    by (simp add: charToMinitel_def accentMap_def charCodeAt0_def Buffer_from_def numeral_3_eq_3)
  have b: "writeRepeated ?st 0xE9 2 =
      Inr (?st\<lparr>wire := [Wrote [0x19, 0x42, 0x65, 0x19, 0x42, 0x65]]\<rparr>)"
    using writeRepeated_branches [of ?st 2 "0xE9"] r
    by (simp add: charToMinitel_def accentMap_def Buffer_from_def numeral_2_eq_2)
  have c: "writeRepeated ?st 0x20 40 = Inr (?st\<lparr>wire := [Wrote [0x20, 0x12, 0x67]]\<rparr>)"
    using writeRepeated_branches [of ?st 40 "0x20"] r by (simp add: charCodeAt0_def)
  let ?st2 = "?st\<lparr>wire := [Wrote [0x20, 0x12, 0x7F], Wrote [0x20, 0x12, 0x7F]]\<rparr>"
  have d1: "writeRepeated ?st 0x20 130 = writeRepeated ?st2 0x20 2"
    using writeRepeated_branches [of ?st 130 "0x20"] r
    by (simp add: charCodeAt0_def numeral_2_eq_2)
  have d2: "writeRepeated ?st2 0x20 2 =
      Inr (?st\<lparr>wire :=
        [Wrote [0x20, 0x12, 0x7F], Wrote [0x20, 0x12, 0x7F], Wrote [0x20, 0x20]]\<rparr>)"
    using writeRepeated_branches [of ?st2 2 "0x20"] r
    by (simp add: charToMinitel_def accentMap_def charCodeAt0_def Buffer_from_def numeral_2_eq_2)
  from a b c d1 d2 show ?thesis by simp
qed

text \<open>
  C2. A repeat command is the character, \<open>0x12\<close> and the directive byte. For up to three
  repetitions \<open>writeRepeated\<close> sends the character as \<open>writeText\<close> does, through
  \<open>charToMinitel\<close>; the branch for 4 to 64 repetitions does not, it puts
  \<^verbatim>\<open>char.charCodeAt(0)\<close> in the buffer, which keeps its low 8 bits. So the character of a
  repeat command is the one asked for only when it is its own encoding. For \<open>U+03B2\<close>,
  whose encoding is \<open>19 7B\<close>: three repetitions are sent as \<open>19 7B 19 7B 19 7B\<close>, four
  as \<open>B2 12 43\<close>, where \<open>B2\<close> is neither the character code \<open>0x3B2\<close> nor the encoding.
  For \<open>U+00E9\<close>, whose encoding is \<open>19 42 65\<close>: three repetitions are sent as that
  encoding three times, four as \<open>E9 12 43\<close>.
\<close>

theorem C2_repeat_skips_codec:
  "charCodeAt0 0x3B2 = 0x3B2 \<and> charToMinitel 0x3B2 = [0x19, 0x7B] \<and>
   writeText (connected_at 1200) [0x3B2] =
     Inr ((connected_at 1200)\<lparr>wire := [Wrote [0x19, 0x7B]]\<rparr>) \<and>
   writeRepeated (connected_at 1200) 0x3B2 3 =
     Inr ((connected_at 1200)\<lparr>wire := [Wrote [0x19, 0x7B, 0x19, 0x7B, 0x19, 0x7B]]\<rparr>) \<and>
   writeRepeated (connected_at 1200) 0x3B2 4 =
     Inr ((connected_at 1200)\<lparr>wire := [Wrote [0xB2, 0x12, 0x43]]\<rparr>) \<and>
   map uint [0xB2 :: byte, 0x12, 0x43] \<noteq> [charCodeAt0 0x3B2, 0x12, 4 - 1 + 0x40] \<and>
   charCodeAt0 0xE9 = 0xE9 \<and> charToMinitel 0xE9 = [0x19, 0x42, 0x65] \<and>
   writeRepeated (connected_at 1200) 0xE9 3 =
     Inr ((connected_at 1200)\<lparr>wire :=
       [Wrote [0x19, 0x42, 0x65, 0x19, 0x42, 0x65, 0x19, 0x42, 0x65]]\<rparr>) \<and>
   writeRepeated (connected_at 1200) 0xE9 4 =
     Inr ((connected_at 1200)\<lparr>wire := [Wrote [0xE9, 0x12, 0x43]]\<rparr>)"
  by (simp add: writeRepeated.simps [of _ _ 3] writeRepeated.simps [of _ _ 4] writeText_def
      write_data_ready Buffer_from_def charCodeAt0_def charToMinitel_def accentMap_def
      numeral_3_eq_3)

subsection \<open>Character codec\<close>







subsection \<open>Cursor placement\<close>

text \<open>
  C8. \<open>moveCursor\<close> raises the validation error exactly when \<open>row < 0\<close>, \<open>row > 24\<close>,
  \<open>col < 1\<close> or \<open>col > 40\<close>; an error result carries no new state, so nothing was
  sent. Every other call, on a connected driver with an open port, hands the port exactly
  the three bytes \<open>0x1F\<close>, \<open>0x40 + row\<close>, \<open>0x40 + col\<close>.
\<close>

theorem C8_moveCursor:
  "(moveCursor st row col = Inl InvalidCursorPosition)
      = (row < 0 \<or> row > 24 \<or> col < 1 \<or> col > 40) \<and>
   (ready st \<and> 0 \<le> row \<and> row \<le> 24 \<and> 1 \<le> col \<and> col \<le> 40 \<longrightarrow>
      moveCursor st row col =
        Inr (st\<lparr>wire := wire st @
               [Wrote [0x1F, word_of_int (0x40 + row), word_of_int (0x40 + col)]]\<rparr>) \<and>
      map uint [0x1F :: byte, word_of_int (0x40 + row), word_of_int (0x40 + col)]
        = [0x1F, 0x40 + row, 0x40 + col])"
proof -
  have rejects: "(moveCursor st row col = Inl InvalidCursorPosition)
      = (row < 0 \<or> row > 24 \<or> col < 1 \<or> col > 40)"
    by (auto simp: moveCursor_def write_data_def split: option.splits)
  have accepts: "moveCursor st row col =
        Inr (st\<lparr>wire := wire st @
               [Wrote [0x1F, word_of_int (0x40 + row), word_of_int (0x40 + col)]]\<rparr>)"
    if "ready st" "0 \<le> row" "row \<le> 24" "1 \<le> col" "col \<le> 40"
    using that by (simp add: moveCursor_def write_data_ready Buffer_from_def)
  have bytes: "map uint [0x1F :: byte, word_of_int (0x40 + row), word_of_int (0x40 + col)]
        = [0x1F, 0x40 + row, 0x40 + col]"
    if "0 \<le> row" "row \<le> 24" "1 \<le> col" "col \<le> 40"
    using that uint_byte [of "0x40 + row"] uint_byte [of "0x40 + col"] by simp
  from rejects accepts bytes show ?thesis by blast
qed

text \<open>The four boundary values are accepted; one step beyond each is rejected.\<close>

theorem C8_witness:
  "moveCursor (connected_at 1200) 0 1 =
     Inr ((connected_at 1200)\<lparr>wire := [Wrote [0x1F, 0x40, 0x41]]\<rparr>) \<and>
   moveCursor (connected_at 1200) 24 40 =
     Inr ((connected_at 1200)\<lparr>wire := [Wrote [0x1F, 0x58, 0x68]]\<rparr>) \<and>
   moveCursor (connected_at 1200) (-1) 1 = Inl InvalidCursorPosition \<and>
   moveCursor (connected_at 1200) 25 1 = Inl InvalidCursorPosition \<and>
   moveCursor (connected_at 1200) 0 0 = Inl InvalidCursorPosition \<and>
   moveCursor (connected_at 1200) 0 41 = Inl InvalidCursorPosition"
  using C8_moveCursor [of "connected_at 1200" 0 1] C8_moveCursor [of "connected_at 1200" 24 40]
    C8_moveCursor [of "connected_at 1200" "-1" 1] C8_moveCursor [of "connected_at 1200" 25 1]
    C8_moveCursor [of "connected_at 1200" 0 0] C8_moveCursor [of "connected_at 1200" 0 41]
  by simp

subsection \<open>Function keys\<close>

text \<open>
  C9. \<open>parseFunctionKey\<close> returns the key code \<open>k\<close> exactly when the event is the two
  bytes \<open>0x13\<close>, \<open>k\<close>; it returns \<^verbatim>\<open>null\<close> for every other event: one byte, three or
  more, none, or two bytes that do not start with \<open>0x13\<close>.
\<close>

theorem C9_parseFunctionKey:
  "(parseFunctionKey data = Some k) = (data = [0x13, k]) \<and>
   (parseFunctionKey data = None) = (\<not> (length data = 2 \<and> hd data = 0x13))"
proof (cases data)
  case Nil
  then show ?thesis by (simp add: parseFunctionKey_def)
next
  case (Cons a as)
  then show ?thesis
    by (cases as) (auto simp: parseFunctionKey_def)
qed

theorem C9_witness:
  "parseFunctionKey [0x13, 0x41] = Some 0x41 \<and> parseFunctionKey [0x41] = None \<and>
   parseFunctionKey [0x13, 0x41, 0x42] = None \<and> parseFunctionKey [0x41, 0x13] = None \<and>
   parseFunctionKey [] = None"
  using C9_parseFunctionKey [of "[0x13, 0x41]" "0x41"] C9_parseFunctionKey [of "[0x41]"]
    C9_parseFunctionKey [of "[0x13, 0x41, 0x42]"] C9_parseFunctionKey [of "[0x41, 0x13]"]
    C9_parseFunctionKey [of "[]"]
  by simp

subsection \<open>Format switches\<close>

lemma formatCodes_get_Own:
  "map_of formatCodes key = Some v \<Longrightarrow> formatCodes_get key = Own v"
  by (simp add: formatCodes_get_def)

lemma formatCodes_get_Undefined:
  "key \<notin> fst ` set formatCodes \<Longrightarrow> key \<notin> set objectPrototypeKeys \<Longrightarrow>
   formatCodes_get key = Undefined"
proof -
  assume "key \<notin> fst ` set formatCodes" "key \<notin> set objectPrototypeKeys"
  moreover from this have "map_of formatCodes key = None"
    by (simp add: map_of_eq_None_iff)
  ultimately show ?thesis by (simp add: formatCodes_get_def)
qed

lemma formatCodes_get_Undefined_only:
  "formatCodes_get key = Undefined \<Longrightarrow> key \<notin> fst ` set formatCodes"
  by (auto simp: formatCodes_get_def map_of_eq_None_iff split: option.splits if_splits)

text \<open>
  C10 (as amended). Only a string can raise the invalid-format error, and the name is
  looked up after \<open>toLowerCase\<close>. A number \<open>n\<close> is never validated: on a connected
  driver \<open>ESC\<close> and the low 8 bits of \<open>n\<close> are sent. A string whose lower-case form is a
  name of the table sends \<open>ESC\<close> and the code of that name. A string whose lower-case
  form is neither a name of the table nor a property name inherited from
  \<^verbatim>\<open>Object.prototype\<close> raises the error, which carries the string and the names of the
  table, and nothing is sent. Whenever the error is raised, the argument is a string whose
  lower-case form is not a name of the table.
\<close>

theorem C10_setFormat:
  "(ready st \<longrightarrow>
      setFormat toLowerCase st (Num n) =
        Inr (st\<lparr>wire := wire st @ [Wrote [0x1B, word_of_int n]]\<rparr>)) \<and>
   (ready st \<and> map_of formatCodes (toLowerCase s) = Some v \<longrightarrow>
      setFormat toLowerCase st (Str s) =
        Inr (st\<lparr>wire := wire st @ [Wrote [0x1B, word_of_int v]]\<rparr>)) \<and>
   (toLowerCase s \<notin> fst ` set formatCodes \<and> toLowerCase s \<notin> set objectPrototypeKeys \<longrightarrow>
      setFormat toLowerCase st (Str s) = Inl (InvalidFormat s (map fst formatCodes))) \<and>
   (setFormat toLowerCase st code = Inl (InvalidFormat f names) \<longrightarrow>
      code = Str f \<and> toLowerCase f \<notin> fst ` set formatCodes \<and> names = map fst formatCodes)"
proof (intro conjI impI)
  assume "ready st"
  then show "setFormat toLowerCase st (Num n) =
        Inr (st\<lparr>wire := wire st @ [Wrote [0x1B, word_of_int n]]\<rparr>)"
    by (simp add: setFormat_def write_data_ready Buffer_from_def)
next
  assume "ready st \<and> map_of formatCodes (toLowerCase s) = Some v"
  then show "setFormat toLowerCase st (Str s) =
        Inr (st\<lparr>wire := wire st @ [Wrote [0x1B, word_of_int v]]\<rparr>)"
    by (simp add: setFormat_def formatCodes_get_Own write_data_ready Buffer_from_def)
next
  assume "toLowerCase s \<notin> fst ` set formatCodes \<and> toLowerCase s \<notin> set objectPrototypeKeys"
  then show "setFormat toLowerCase st (Str s) = Inl (InvalidFormat s (map fst formatCodes))"
    by (simp add: setFormat_def formatCodes_get_Undefined)
next
  assume a: "setFormat toLowerCase st code = Inl (InvalidFormat f names)"
  then obtain s where s: "code = Str s"
    by (cases code) (auto simp: setFormat_def write_data_not_InvalidFormat)
  from a s have u: "formatCodes_get (toLowerCase s) = Undefined"
    by (cases "formatCodes_get (toLowerCase s)")
      (auto simp: setFormat_def write_data_not_InvalidFormat)
  from a s u have fs: "f = s" "names = map fst formatCodes"
    by (simp_all add: setFormat_def)
  from s fs show "code = Str f" by simp
  from u fs show "toLowerCase f \<notin> fst ` set formatCodes"
    by (simp add: formatCodes_get_Undefined_only)
  from fs show "names = map fst formatCodes" by simp
qed

theorem C10_witness:
  "setFormat asciiLower (connected_at 1200) (Num 0x48) =
     Inr ((connected_at 1200)\<lparr>wire := [Wrote [0x1B, 0x48]]\<rparr>) \<and>
   setFormat asciiLower (connected_at 1200) (Num 0x199) =
     Inr ((connected_at 1200)\<lparr>wire := [Wrote [0x1B, 0x99]]\<rparr>) \<and>
   setFormat asciiLower (connected_at 1200) (Str (js ''blink'')) =
     Inr ((connected_at 1200)\<lparr>wire := [Wrote [0x1B, 0x48]]\<rparr>) \<and>
   setFormat asciiLower (connected_at 1200) (Str (js ''rouge'')) =
     Inl (InvalidFormat (js ''rouge'') (map fst formatCodes)) \<and>
   asciiLower (js ''rouge'') \<notin> fst ` set formatCodes"
proof -
  let ?st = "connected_at 1200"
  let ?rouge = "js ''rouge''"
  have r: "ready ?st" by simp
  have k: "map_of formatCodes (asciiLower (js ''blink'')) = Some 0x48"
    by (simp add: formatCodes_def asciiLower_def js_def)
  have u: "asciiLower ?rouge \<notin> set objectPrototypeKeys"
    by (simp add: objectPrototypeKeys_def asciiLower_def js_def)
  have u': "asciiLower ?rouge \<notin> fst ` set formatCodes"
    by (simp add: formatCodes_def asciiLower_def js_def)
  note inst = C10_setFormat [where st = ?st and toLowerCase = asciiLower and v = "0x48"
      and code = "Str ?rouge" and f = ?rouge and names = "map fst formatCodes"]
  have a: "setFormat asciiLower ?st (Num 0x48) = Inr (?st\<lparr>wire := [Wrote [0x1B, 0x48]]\<rparr>)"
    using inst [where n = "0x48" and s = ?rouge] r by simp
  have b: "setFormat asciiLower ?st (Num 0x199) = Inr (?st\<lparr>wire := [Wrote [0x1B, 0x99]]\<rparr>)"
    using inst [where n = "0x199" and s = ?rouge] r by simp
  have c: "setFormat asciiLower ?st (Str (js ''blink'')) =
      Inr (?st\<lparr>wire := [Wrote [0x1B, 0x48]]\<rparr>)"
    using inst [where n = 0 and s = "js ''blink''"] r k by simp
  have e: "setFormat asciiLower ?st (Str ?rouge) =
      Inl (InvalidFormat ?rouge (map fst formatCodes))"
    using inst [where n = 0 and s = ?rouge] u u' by simp
  have o: "asciiLower ?rouge \<notin> fst ` set formatCodes"
    using inst [where n = 0 and s = ?rouge] e by simp
  from a b c e o show ?thesis by simp
qed

text \<open>
  The claim as stated fails for a name in another letter case: \<^verbatim>\<open>'WHITE'\<close> is not a
  name of the table, and \<open>setFormat\<close> raises nothing and sends \<open>ESC 0x47\<close>.
\<close>

theorem C10_counterexample:
  "js ''WHITE'' \<notin> fst ` set formatCodes \<and>
   setFormat asciiLower (connected_at 1200) (Str (js ''WHITE'')) =
     Inr ((connected_at 1200)\<lparr>wire := [Wrote [0x1B, 0x47]]\<rparr>)"
proof -
  have "formatCodes_get (asciiLower (js ''WHITE'')) = Own 0x47"
    by (simp add: formatCodes_get_def formatCodes_def asciiLower_def js_def)
  moreover have "js ''WHITE'' \<notin> fst ` set formatCodes"
    by (simp add: formatCodes_def js_def)
  ultimately show ?thesis
    by (simp add: setFormat_def write_data_ready Buffer_from_def)
qed

text \<open>
  A name that the table only inherits is not rejected either: \<^verbatim>\<open>'constructor'\<close> reads
  the constructor function of the object literal, and \<open>ESC 0x00\<close> is sent.
\<close>

lemma setFormat_inherited_name:
  "js ''constructor'' \<notin> fst ` set formatCodes \<and>
   setFormat asciiLower (connected_at 1200) (Str (js ''constructor'')) =
     Inr ((connected_at 1200)\<lparr>wire := [Wrote [0x1B, 0x00]]\<rparr>)"
proof -
  have "formatCodes_get (asciiLower (js ''constructor'')) = Inherited"
    by (simp add: formatCodes_get_def formatCodes_def objectPrototypeKeys_def
        asciiLower_def js_def)
  moreover have "js ''constructor'' \<notin> fst ` set formatCodes"
    by (simp add: formatCodes_def js_def)
  ultimately show ?thesis
    by (simp add: setFormat_def write_data_ready Buffer_from_def)
qed

subsection \<open>Input framer\<close>

lemma clearTimeout_eq:
  "clearTimeout st t = st\<lparr>timers := (timers st)[t := (timers st ! t)\<lparr>armed := False\<rparr>]\<rparr>"
  by (simp add: clearTimeout_def list_update_beyond)

lemma handleInputData_unfold:
  "handleInputData st data =
     st\<lparr>inputBuffer := inputBuffer st @ data,
        timers := (case bufferTimeout st of
                     None \<Rightarrow> timers st
                   | Some t \<Rightarrow> (timers st)[t := (timers st ! t)\<lparr>armed := False\<rparr>]) @
                  [\<lparr>deadline = now st + 50, armed = True, action = FlushInput\<rparr>],
        bufferTimeout := Some (length (timers st))\<rparr>"
proof (cases "bufferTimeout st")
  case None
  then show ?thesis
    by (simp add: handleInputData_def setTimeout_def)
next
  case (Some t)
  then show ?thesis
    by (simp add: handleInputData_def setTimeout_def clearTimeout_eq)
qed

lemma list_all_update:
  "list_all P xs \<Longrightarrow> P y \<Longrightarrow> list_all P (xs[i := y])"
  unfolding list_all_iff using set_update_subset_insert [of xs i y] by auto

lemma filter_armed_snoc:
  assumes "list_all (\<lambda>x. \<not> armed x) ts"
  shows "filter (\<lambda>i. armed ((ts @ [tm]) ! i) \<and> Q i) [0..<Suc (length ts)] =
         (if armed tm \<and> Q (length ts) then [length ts] else [])"
proof -
  have "\<forall>i \<in> set [0..<length ts]. \<not> (armed ((ts @ [tm]) ! i) \<and> Q i)"
    using assms by (auto simp: list_all_length nth_append)
  then have "filter (\<lambda>i. armed ((ts @ [tm]) ! i) \<and> Q i) [0..<length ts] = []"
    by (simp only: filter_False)
  then show ?thesis by simp
qed

lemma filter_armed_none:
  assumes "list_all (\<lambda>x. \<not> armed x) ts"
  shows "filter (\<lambda>i. armed (ts ! i) \<and> Q i) [0..<length ts] = []"
proof -
  have "\<forall>i \<in> set [0..<length ts]. \<not> (armed (ts ! i) \<and> Q i)"
    using assms by (auto simp: list_all_length)
  then show ?thesis by (simp only: filter_False)
qed

lemma advance_quiet:
  "quiet st \<Longrightarrow> advance st t = st\<lparr>now := max (now st) t\<rparr>"
  by (simp add: advance_def dueTimers_def quiet_def filter_armed_none)

lemma flush_pending_timers:
  assumes "flush_pending st d"
  obtains ts where "timers st = ts @ [\<lparr>deadline = d, armed = True, action = FlushInput\<rparr>]"
    and "list_all (\<lambda>x. \<not> armed x) ts"
proof
  show "timers st = butlast (timers st) @ [\<lparr>deadline = d, armed = True, action = FlushInput\<rparr>]"
    using assms append_butlast_last_id [of "timers st"] by (simp add: flush_pending_def)
  show "list_all (\<lambda>x. \<not> armed x) (butlast (timers st))"
    using assms by (simp add: flush_pending_def)
qed

lemma dueTimers_pending:
  assumes "flush_pending st d"
  shows "dueTimers st t = (if d \<le> t then [length (timers st) - 1] else [])"
proof -
  let ?tm = "\<lparr>deadline = d, armed = True, action = FlushInput\<rparr>"
  from assms obtain ts where ts: "timers st = ts @ [?tm]"
    and q: "list_all (\<lambda>x. \<not> armed x) ts"
    by (rule flush_pending_timers)
  show ?thesis
    unfolding dueTimers_def ts
    using filter_armed_snoc [OF q, of ?tm "\<lambda>i. deadline ((ts @ [?tm]) ! i) \<le> t"]
    by simp
qed

lemma advance_pending_early:
  "flush_pending st d \<Longrightarrow> t < d \<Longrightarrow> advance st t = st\<lparr>now := max (now st) t\<rparr>"
  by (simp add: advance_def dueTimers_pending)

lemma handleInputData_fields:
  "inputBuffer (handleInputData st data) = inputBuffer st @ data"
  "delivered (handleInputData st data) = delivered st"
  "now (handleInputData st data) = now st"
  by (simp_all add: handleInputData_unfold)

lemma quiet_handleInputData:
  assumes "quiet st"
  shows "flush_pending (handleInputData st data) (now st + 50)"
proof -
  let ?cleared = "case bufferTimeout st of
                     None \<Rightarrow> timers st
                   | Some t \<Rightarrow> (timers st)[t := (timers st ! t)\<lparr>armed := False\<rparr>]"
  have "list_all (\<lambda>x. \<not> armed x) ?cleared"
    using assms by (cases "bufferTimeout st") (simp_all add: quiet_def list_all_update)
  moreover have "length ?cleared = length (timers st)"
    by (cases "bufferTimeout st") simp_all
  ultimately show ?thesis
    using assms by (simp add: flush_pending_def handleInputData_unfold quiet_def)
qed

lemma pending_handleInputData:
  assumes "flush_pending st d"
  shows "flush_pending (handleInputData st data) (now st + 50)"
proof -
  let ?tm = "\<lparr>deadline = d, armed = True, action = FlushInput\<rparr>"
  from assms obtain ts where ts: "timers st = ts @ [?tm]"
    and q: "list_all (\<lambda>x. \<not> armed x) ts"
    by (rule flush_pending_timers)
  have bt: "bufferTimeout st = Some (length ts)"
    using assms ts by (simp add: flush_pending_def)
  show ?thesis
    using assms q by (simp add: flush_pending_def handleInputData_unfold ts bt butlast_append)
qed

lemma flush_pending_now [simp]: "flush_pending (st\<lparr>now := x\<rparr>) d = flush_pending st d"
  by (simp add: flush_pending_def)

lemma quiet_now [simp]: "quiet (st\<lparr>now := x\<rparr>) = quiet st"
  by (simp add: quiet_def)

lemma flushInput_application:
  assumes "inputBuffer st \<noteq> []" "expectedReplies st = []" "onData st = Application"
  shows "flushInput st = st\<lparr>inputBuffer := [], delivered := delivered st @ [inputBuffer st]\<rparr>"
  using assms by (simp add: flushInput_def call_onData_def)

lemma advance_pending_due:
  assumes "flush_pending st d" "d \<le> t" "inputBuffer st \<noteq> []"
  shows "quiet (advance st t) \<and> delivered (advance st t) = delivered st @ [inputBuffer st] \<and>
         inputBuffer (advance st t) = [] \<and> now (advance st t) = max (now st) t"
proof -
  let ?tm = "\<lparr>deadline = d, armed = True, action = FlushInput\<rparr>"
  from assms(1) obtain ts where ts: "timers st = ts @ [?tm]"
    and q: "list_all (\<lambda>x. \<not> armed x) ts"
    by (rule flush_pending_timers)
  have app: "expectedReplies st = []" "onData st = Application"
    using assms(1) by (simp_all add: flush_pending_def)
  let ?st1 = "st\<lparr>timers := ts @ [?tm\<lparr>armed := False\<rparr>]\<rparr>"
  have fire: "fireTimer (length ts) st = flushInput ?st1"
    by (simp add: fireTimer_def ts runTimer_def clearTimeout_eq)
  have "flushInput ?st1 = ?st1\<lparr>inputBuffer := [], delivered := delivered st @ [inputBuffer st]\<rparr>"
    using flushInput_application [of ?st1] assms(3) app by simp
  with fire have "advance st t =
      ?st1\<lparr>inputBuffer := [], delivered := delivered st @ [inputBuffer st],
            now := max (now st) t\<rparr>"
    using assms(1,2) by (simp add: advance_def dueTimers_pending ts)
  then show ?thesis using q app by (simp add: quiet_def)
qed

text \<open>
  C6. \<open>handleInputData\<close> appends the received bytes to the accumulator, disarms the
  previous inactivity timer and arms a new one 50 ms ahead. When that timer fires, the
  accumulator is empty afterwards, and a non-empty accumulator is handed over whole, as
  one event (to the application's callback when that is the installed handler and no
  reply is expected). Hence, for a driver with no timer armed and an empty accumulator:
  two chunks less than 50 ms apart are delivered as one event, their concatenation; two
  chunks more than 50 ms apart are delivered as two events. Timers fire at their
  deadline (see \<open>advance\<close>).
\<close>

theorem C6_input_framer:
  "inputBuffer (handleInputData st0 data) = inputBuffer st0 @ data \<and>
   bufferTimeout (handleInputData st0 data) = Some (length (timers st0)) \<and>
   timers (handleInputData st0 data) ! length (timers st0) =
     \<lparr>deadline = now st0 + 50, armed = True, action = FlushInput\<rparr> \<and>
   (bufferTimeout st0 = Some old \<and> old < length (timers st0) \<longrightarrow>
      \<not> armed (timers (handleInputData st0 data) ! old)) \<and>
   inputBuffer (flushInput st0) = [] \<and>
   (inputBuffer st0 \<noteq> [] \<and> expectedReplies st0 = [] \<and> onData st0 = Application \<longrightarrow>
      delivered (flushInput st0) = delivered st0 @ [inputBuffer st0]) \<and>
   (quiet st \<and> inputBuffer st = [] \<and> now st \<le> t1 \<and> t1 \<le> t2 \<and> t2 < t1 + 50 \<and>
    t2 + 50 \<le> t3 \<and> xs \<noteq> [] \<longrightarrow>
      delivered (advance (receive (receive st t1 xs) t2 ys) t3) = delivered st @ [xs @ ys] \<and>
      inputBuffer (advance (receive (receive st t1 xs) t2 ys) t3) = []) \<and>
   (quiet st \<and> inputBuffer st = [] \<and> now st \<le> t1 \<and> t1 + 50 < t2 \<and>
    t2 + 50 \<le> t3 \<and> xs \<noteq> [] \<and> ys \<noteq> [] \<longrightarrow>
      delivered (advance (receive (receive st t1 xs) t2 ys) t3) = delivered st @ [xs, ys] \<and>
      inputBuffer (advance (receive (receive st t1 xs) t2 ys) t3) = [])"
proof -
  have append: "inputBuffer (handleInputData st0 data) = inputBuffer st0 @ data"
    by (simp add: handleInputData_unfold)
  have handle: "bufferTimeout (handleInputData st0 data) = Some (length (timers st0))"
    by (simp add: handleInputData_unfold)
  have len: "length (case bufferTimeout st0 of
                     None \<Rightarrow> timers st0
                   | Some t \<Rightarrow> (timers st0)[t := (timers st0 ! t)\<lparr>armed := False\<rparr>])
             = length (timers st0)"
    by (cases "bufferTimeout st0") simp_all
  have restart: "timers (handleInputData st0 data) ! length (timers st0) =
     \<lparr>deadline = now st0 + 50, armed = True, action = FlushInput\<rparr>"
    using len by (simp add: handleInputData_unfold nth_append)
  have cancel: "\<not> armed (timers (handleInputData st0 data) ! old)"
    if "bufferTimeout st0 = Some old" "old < length (timers st0)"
    using that by (simp add: handleInputData_unfold nth_append)
  have reset: "inputBuffer (flushInput st0) = []"
    by (simp add: flushInput_def call_onData_def waitHandler_def resolve_def cleanup_def
        clearTimeout_eq Let_def split: option.splits handler.splits)
  have event: "delivered (flushInput st0) = delivered st0 @ [inputBuffer st0]"
    if "inputBuffer st0 \<noteq> []" "expectedReplies st0 = []" "onData st0 = Application"
    using that by (simp add: flushInput_application)
  have merged: "delivered (advance (receive (receive st t1 xs) t2 ys) t3)
                  = delivered st @ [xs @ ys] \<and>
                inputBuffer (advance (receive (receive st t1 xs) t2 ys) t3) = []"
    if q: "quiet st" and e: "inputBuffer st = []" and t: "now st \<le> t1" "t1 \<le> t2"
      "t2 < t1 + 50" "t2 + 50 \<le> t3" and x: "xs \<noteq> []"
  proof -
    let ?s1 = "receive st t1 xs"
    let ?s2 = "receive ?s1 t2 ys"
    have a1: "advance st t1 = st\<lparr>now := t1\<rparr>"
      using q t by (simp add: advance_quiet max_def)
    have p1: "flush_pending ?s1 (t1 + 50)"
      using quiet_handleInputData [of "st\<lparr>now := t1\<rparr>" xs] q by (simp add: receive_def a1)
    have f1: "inputBuffer ?s1 = xs" "delivered ?s1 = delivered st" "now ?s1 = t1"
      using e by (simp_all add: receive_def a1 handleInputData_fields)
    have a2: "advance ?s1 t2 = ?s1\<lparr>now := t2\<rparr>"
      using advance_pending_early [OF p1, of t2] t f1 by (simp add: max_def)
    have p2: "flush_pending ?s2 (t2 + 50)"
      using pending_handleInputData [of "?s1\<lparr>now := t2\<rparr>" "t1 + 50" ys] p1
      by (simp add: receive_def [of ?s1] a2)
    have f2: "inputBuffer ?s2 = xs @ ys" "delivered ?s2 = delivered st"
      using f1 by (simp_all add: receive_def [of ?s1] a2 handleInputData_fields)
    show ?thesis
      using advance_pending_due [OF p2, of t3] t x f2 by simp
  qed
  have split: "delivered (advance (receive (receive st t1 xs) t2 ys) t3)
                  = delivered st @ [xs, ys] \<and>
                inputBuffer (advance (receive (receive st t1 xs) t2 ys) t3) = []"
    if q: "quiet st" and e: "inputBuffer st = []" and t: "now st \<le> t1" "t1 + 50 < t2"
      "t2 + 50 \<le> t3" and x: "xs \<noteq> []" "ys \<noteq> []"
  proof -
    let ?s1 = "receive st t1 xs"
    let ?s2 = "receive ?s1 t2 ys"
    have a1: "advance st t1 = st\<lparr>now := t1\<rparr>"
      using q t by (simp add: advance_quiet max_def)
    have p1: "flush_pending ?s1 (t1 + 50)"
      using quiet_handleInputData [of "st\<lparr>now := t1\<rparr>" xs] q by (simp add: receive_def a1)
    have f1: "inputBuffer ?s1 = xs" "delivered ?s1 = delivered st" "now ?s1 = t1"
      using e by (simp_all add: receive_def a1 handleInputData_fields)
    have a2: "quiet (advance ?s1 t2) \<and> delivered (advance ?s1 t2) = delivered st @ [xs] \<and>
         inputBuffer (advance ?s1 t2) = [] \<and> now (advance ?s1 t2) = t2"
      using advance_pending_due [OF p1, of t2] t x f1 by (simp add: max_def)
    have p2: "flush_pending ?s2 (t2 + 50)"
      using quiet_handleInputData [of "advance ?s1 t2" ys] a2 by (simp add: receive_def [of ?s1])
    have f2: "inputBuffer ?s2 = ys" "delivered ?s2 = delivered st @ [xs]"
      using a2 by (simp_all add: receive_def [of ?s1] handleInputData_fields)
    show ?thesis
      using advance_pending_due [OF p2, of t3] t x f2 by simp
  qed
  show ?thesis
    using append handle restart cancel reset event merged split by blast
qed

text \<open>
  A function key, \<open>0x13\<close> then \<open>0x41\<close>: 10 ms apart the two bytes are one event, 51 ms
  apart they are two.
\<close>

theorem C6_witness:
  "delivered (advance (receive (receive (new_Minitel Auto True) 10 [0x13]) 20 [0x41]) 70)
     = [[0x13, 0x41]] \<and>
   delivered (advance (receive (receive (new_Minitel Auto True) 10 [0x13]) 61 [0x41]) 200)
     = [[0x13], [0x41]] \<and>
   inputBuffer (handleInputData (new_Minitel Auto True) [0x13]) = [0x13] \<and>
   timers (handleInputData (new_Minitel Auto True) [0x13]) ! 0
     = \<lparr>deadline = 50, armed = True, action = FlushInput\<rparr> \<and>
   \<not> armed (timers (handleInputData (handleInputData (new_Minitel Auto True) [0x13]) [0x41]) ! 0) \<and>
   delivered (flushInput ((new_Minitel Auto True)\<lparr>inputBuffer := [0x13, 0x41]\<rparr>))
     = [[0x13, 0x41]]"
proof -
  let ?st = "new_Minitel Auto True"
  have q: "quiet ?st" "inputBuffer ?st = []" "now ?st = 0" "delivered ?st = []"
    "timers ?st = []" "bufferTimeout ?st = None"
    by (simp_all add: quiet_def new_Minitel_def)
  have m: "delivered (advance (receive (receive ?st 10 [0x13]) 20 [0x41]) 70) = [[0x13, 0x41]]"
    using C6_input_framer [where st = ?st and ?t1.0 = 10 and ?t2.0 = 20 and ?t3.0 = 70
        and xs = "[0x13]" and ys = "[0x41]"] q
    by simp
  have s: "delivered (advance (receive (receive ?st 10 [0x13]) 61 [0x41]) 200)
      = [[0x13], [0x41]]"
    using C6_input_framer [where st = ?st and ?t1.0 = 10 and ?t2.0 = 61 and ?t3.0 = 200
        and xs = "[0x13]" and ys = "[0x41]"] q
    by simp
  have h: "inputBuffer (handleInputData ?st [0x13]) = [0x13] \<and>
      timers (handleInputData ?st [0x13]) ! 0
        = \<lparr>deadline = 50, armed = True, action = FlushInput\<rparr>"
    using C6_input_framer [where ?st0.0 = ?st and data = "[0x13]"] q by simp
  let ?st1 = "handleInputData ?st [0x13]"
  have q1: "bufferTimeout ?st1 = Some 0" "length (timers ?st1) = 1"
    using q by (simp_all add: handleInputData_unfold)
  have c: "\<not> armed (timers (handleInputData ?st1 [0x41]) ! 0)"
    using C6_input_framer [where ?st0.0 = ?st1 and data = "[0x41]" and old = 0] q1 by simp
  let ?st2 = "?st\<lparr>inputBuffer := [0x13, 0x41]\<rparr>"
  have q2: "inputBuffer ?st2 \<noteq> []" "expectedReplies ?st2 = []" "onData ?st2 = Application"
    "delivered ?st2 = []" "inputBuffer ?st2 = [0x13, 0x41]"
    by (simp_all add: new_Minitel_def)
  have e: "delivered (flushInput ?st2) = [[0x13, 0x41]]"
    using C6_input_framer [where ?st0.0 = ?st2] q2 by simp
  from m s h c e show ?thesis by simp
qed


subsection \<open>Waiting for a reply\<close>

text \<open>
  The running definition of the wait registers nothing in \<^verbatim>\<open>this.expectedReplies\<close>
  and replaces the handler; while its closure is the handler, the flush delivers nothing
  to the application, whether or not the event satisfies the predicate.
\<close>

lemma waitForResponse_registers_nothing:
  "expectedReplies (snd (waitForResponse st pred timeout)) = expectedReplies st \<and>
   onData (snd (waitForResponse st pred timeout)) = WaitHandler (length (waits st)) \<and>
   length (waits (snd (waitForResponse st pred timeout))) = Suc (length (waits st))"
  by (simp add: waitForResponse_def setTimeout_def Let_def)

lemma waitHandler_delivers_nothing: "delivered (waitHandler st w data) = delivered st"
  by (simp add: waitHandler_def resolve_def cleanup_def clearTimeout_eq Let_def)

lemma flushInput_during_wait:
  assumes "expectedReplies st = []" "onData st = WaitHandler w"
  shows "delivered (flushInput st) = delivered st"
  using assms by (simp add: flushInput_def call_onData_def waitHandler_delivers_nothing)

text \<open>
  For what \<^verbatim>\<open>this.expectedReplies\<close> holds, the flush does resolve the first entry whose
  predicate holds, with the flushed bytes, removes it, clears its timer and delivers
  nothing to the application.
\<close>

lemma flushInput_expected_reply:
  assumes "inputBuffer st \<noteq> []"
    and "findIndex (\<lambda>expected. reply_predicate expected (inputBuffer st)) (expectedReplies st)
           = Some i"
  shows "flushInput st =
    resolve
      ((clearTimeout (st\<lparr>inputBuffer := []\<rparr>) (reply_timeout (expectedReplies st ! i)))
         \<lparr>expectedReplies := take i (expectedReplies st) @ drop (Suc i) (expectedReplies st)\<rparr>)
      (reply_resolve (expectedReplies st ! i)) (inputBuffer st)"
    and "delivered (flushInput st) = delivered st"
  using assms by (simp_all add: flushInput_def resolve_def clearTimeout_eq Let_def)

lemma findIndex_first:
  "findIndex P xs = Some i \<Longrightarrow> i < length xs \<and> P (xs ! i) \<and> (\<forall>j < i. \<not> P (xs ! j))"
proof (induction xs arbitrary: i)
  case Nil
  then show ?case by simp
next
  case (Cons x xs)
  show ?case
  proof (cases "P x")
    case True
    with Cons.prems show ?thesis by simp
  next
    case False
    with Cons.prems obtain k where k: "findIndex P xs = Some k" "i = Suc k" by auto
    from Cons.IH [OF k(1)] False k(2) show ?thesis
      by (auto simp: nth_Cons split: nat.splits)
  qed
qed

lemma identificationReply_samples:
  "identificationReply [0x41] = False"
  "identificationReply [0x00, 0x01, 0x43, 0x75, 0x32, 0x04] = False"
  "identificationReply [0x01, 0x43, 0x75, 0x32, 0x04] = True"
  "identificationReply [0x00] = False"
  by (simp_all add: identificationReply_def)

lemmas runtime_defs =
  waitForResponse_def waitForResponse_shadowed_def setTimeout_def clearTimeout_def
  receive_def advance_def dueTimers_def fireTimer_def runTimer_def handleInputData_def
  flushInput_def call_onData_def waitHandler_def waitExpired_def replyExpired_def
  cleanup_def resolve_def reject_def new_Minitel_def

text \<open>
  C1. The loop of the flush is over \<^verbatim>\<open>this.expectedReplies\<close>, which only the shadowed
  definition of \<^verbatim>\<open>_waitForResponse\<close> fills. With a wait outstanding that the running
  definition registered, the list is empty and \<^verbatim>\<open>this.onData\<close> is the closure of the
  wait: the event \<open>0x41\<close>, which is no identification reply, is kept in the
  \<^verbatim>\<open>responseData\<close> of the wait and the application's callback is not called. With the
  shadowed definition the same event reaches the application.
\<close>

theorem C1_event_during_wait:
  "expectedReplies waiting_driver = [] \<and> onData waiting_driver = WaitHandler 0 \<and>
   delivered (advance (receive waiting_driver 10 [0x41]) 60) = [] \<and>
   map responseData (waits (advance (receive waiting_driver 10 [0x41]) 60)) = [[0x41]] \<and>
   promises (advance (receive waiting_driver 10 [0x41]) 60) = [Pending] \<and>
   delivered (advance (receive waiting_driver_shadowed 10 [0x41]) 60) = [[0x41]]"
  by (simp add: waiting_driver_def waiting_driver_shadowed_def runtime_defs
      identificationReply_samples)

text \<open>
  C5. A wait that the running definition registered tests the accumulation of all events
  since it began: after a noise byte, an event that is an identification reply by itself
  does not resolve it, and the wait times out; the shadowed definition resolves it with
  that event. Of two overlapping waits, the timeout of the second restores the handler it
  had saved, which is the closure of the first: the first wait, already timed out, is
  installed again, and the next event goes to it and not to the application.
\<close>

theorem C5_wait_outcomes:
  "identificationReply [0x01, 0x43, 0x75, 0x32, 0x04] \<and>
   promises (advance (receive (receive waiting_driver 10 [0x00]) 100
                        [0x01, 0x43, 0x75, 0x32, 0x04]) 200)
     = [Rejected WaitTimeout] \<and>
   promises (advance (receive (receive waiting_driver_shadowed 10 [0x00]) 100
                        [0x01, 0x43, 0x75, 0x32, 0x04]) 200)
     = [Resolved [0x01, 0x43, 0x75, 0x32, 0x04]] \<and>
   promises (advance overlapping_waits 1001) = [Rejected WaitTimeout, Rejected WaitTimeout] \<and>
   onData (advance overlapping_waits 1001) = WaitHandler 0 \<and>
   delivered (advance (receive (advance overlapping_waits 1001) 2000 [0x41]) 2050) = [] \<and>
   map responseData (waits (advance (receive (advance overlapping_waits 1001) 2000 [0x41]) 2050))
     = [[0x41], []]"
  by (simp add: waiting_driver_def waiting_driver_shadowed_def overlapping_waits_def
      runtime_defs identificationReply_samples)


lemma fold_application:
  assumes "onData st = Application"
  shows "promises (fold (\<lambda>d s. call_onData s d) events st) = promises st"
  using assms
  by (induction events arbitrary: st) (simp_all add: call_onData_def)

text \<open>
  What a caller of \<open>waitForResponse\<close> gets is what \<open>awaitReply\<close> computes: while the
  closure of a wait is installed, with the application's callback saved, the events
  handed to \<^verbatim>\<open>this.onData\<close> leave its promise resolved with the first accumulation
  that satisfies the predicate, and pending when there is none.
\<close>

lemma awaitReply_waitHandler:
  assumes "onData st = WaitHandler w" "w < length (waits st)"
    and "predicate (waits st ! w) = pred" "responseData (waits st ! w) = acc"
    and "originalOnData (waits st ! w) = Application"
    and "promise (waits st ! w) = p" "p < length (promises st)" "promises st ! p = Pending"
  shows "promises (fold (\<lambda>d s. call_onData s d) events st) ! p =
           (case awaitReply pred acc events of None \<Rightarrow> Pending | Some r \<Rightarrow> Resolved r)"
  using assms
proof (induction events arbitrary: st acc)
  case Nil
  then show ?case by simp
next
  case (Cons d events)
  let ?c = "waits st ! w"
  let ?st1 = "st\<lparr>waits := (waits st)[w := ?c\<lparr>responseData := acc @ d\<rparr>]\<rparr>"
  show ?case
  proof (cases "pred (acc @ d)")
    case True
    let ?st2 = "resolve (cleanup ?st1 w) p (acc @ d)"
    have step: "call_onData st d = ?st2"
      using Cons.prems True by (simp add: call_onData_def waitHandler_def Let_def)
    have app: "onData ?st2 = Application"
      using Cons.prems by (simp add: resolve_def cleanup_def clearTimeout_eq)
    have res: "promises ?st2 = (promises st)[p := Resolved (acc @ d)]"
      using Cons.prems by (simp add: resolve_def cleanup_def clearTimeout_eq)
    have "promises (fold (\<lambda>d s. call_onData s d) events ?st2) = promises ?st2"
      using app by (rule fold_application)
    then show ?thesis
      using True step res Cons.prems by (simp add: Let_def)
  next
    case False
    have step: "call_onData st d = ?st1"
      using Cons.prems False by (simp add: call_onData_def waitHandler_def Let_def)
    have "promises (fold (\<lambda>d s. call_onData s d) events ?st1) ! p =
           (case awaitReply pred (acc @ d) events of None \<Rightarrow> Pending | Some r \<Rightarrow> Resolved r)"
      using Cons.prems by (intro Cons.IH) simp_all
    then show ?thesis using False step by (simp add: Let_def)
  qed
qed


subsection \<open>Connection sequence\<close>

lemma awaitReply_Some_pred:
  "awaitReply pred acc events = Some r \<Longrightarrow> pred r"
  by (induction events arbitrary: acc) (auto simp: Let_def split: if_splits)

lemma parse_identificationReply:
  "identificationReply r \<Longrightarrow> parseDeviceIdentification r \<noteq> None"
  by (simp add: parseDeviceIdentification_def identificationReply_def Let_def
      split: option.splits)

lemma probeReply_Some:
  assumes "probeReply env b = Some r"
  shows "\<not> openFails env b"
    and "awaitReply identificationReply [] (flushedBefore 200 (incoming env b)) = Some r"
    and "identificationReply r"
  using assms awaitReply_Some_pred [of identificationReply "[]" _ r]
  by (auto simp: probeReply_def split: if_splits)

lemma closePort_closed:
  "port st = Some \<lparr>baudRate = b, isOpen = False\<rparr> \<Longrightarrow> closePort st = st"
  by (simp add: closePort_def)

lemma closePort_open:
  "port st = Some \<lparr>baudRate = b, isOpen = True\<rparr> \<Longrightarrow>
   closePort st = st\<lparr>port := Some \<lparr>baudRate = b, isOpen = False\<rparr>, wire := wire st @ [Closed b]\<rparr>"
  by (simp add: closePort_def)

lemma awaitReply_None:
  assumes "\<forall>k. 1 \<le> k \<and> k \<le> length events \<longrightarrow> \<not> pred (acc @ concat (take k events))"
  shows "awaitReply pred acc events = None"
  using assms
proof (induction events arbitrary: acc)
  case Nil
  then show ?case by simp
next
  case (Cons d events)
  have "\<not> pred (acc @ d)" using Cons.prems [rule_format, of 1] by simp
  moreover have "awaitReply pred (acc @ d) events = None"
  proof (rule Cons.IH, intro allI impI)
    fix k assume "1 \<le> k \<and> k \<le> length events"
    then show "\<not> pred ((acc @ d) @ concat (take k events))"
      using Cons.prems [rule_format, of "Suc k"] by simp
  qed
  ultimately show ?case by simp
qed

lemma noReply_probeReply: "noReply env b \<Longrightarrow> probeReply env b = None"
  by (auto simp: noReply_def probeReply_def Let_def list_all_iff intro!: awaitReply_None)

lemma repliesAtOnce_probeReply: "repliesAtOnce env b = Some r \<Longrightarrow> probeReply env b = Some r"
  by (auto simp: repliesAtOnce_def probeReply_def split: if_splits list.splits)

lemma upgradeSpeed_settles: "ready st \<Longrightarrow> fst (upgradeSpeed st env s) \<noteq> Some NeverSettles"
  by (simp add: upgradeSpeed_def write_data_ready Let_def split: option.splits)

lemma connectAtBaudRate_fails:
  assumes "probeReply env b = None"
  shows "\<exists>e st'. connectAtBaudRate st env b True = (Some e, st') \<and> e \<noteq> NeverSettles \<and>
           closePort st' = afterFailedProbe env st b"
proof (cases "openFails env b")
  case True
  then show ?thesis
    by (simp add: connectAtBaudRate_def closePort_def afterFailedProbe_def failedProbe_def)
next
  case False
  with assms have "awaitReply identificationReply [] (flushedBefore 200 (incoming env b)) = None"
    by (simp add: probeReply_def)
  with False show ?thesis
    by (simp add: connectAtBaudRate_def queryDevice_def closePort_def afterFailedProbe_def
        failedProbe_def)
qed

lemma connectAuto_skip:
  assumes "\<forall>c \<in> set pre. probeReply env c = None"
  shows "connectAuto st env (pre @ rest) = connectAuto (foldl (afterFailedProbe env) st pre) env rest"
  using assms
proof (induction pre arbitrary: st)
  case Nil
  then show ?case by simp
next
  case (Cons c pre)
  then have "probeReply env c = None" by simp
  then obtain e st' where "connectAtBaudRate st env c True = (Some e, st')"
    and "e \<noteq> NeverSettles" and "closePort st' = afterFailedProbe env st c"
    using connectAtBaudRate_fails by blast
  then show ?case using Cons by simp
qed

lemma foldl_afterFailedProbe:
  "wire (foldl (afterFailedProbe env) st pre) = wire st @ concat (map (failedProbe env) pre)"
  "autoUpgradeSpeed (foldl (afterFailedProbe env) st pre) = autoUpgradeSpeed st"
  "console (foldl (afterFailedProbe env) st pre) = console st"
  by (induction pre arbitrary: st) (simp_all add: afterFailedProbe_def)

lemma upgradeSpeed_frame:
  assumes "upgradeSpeed st env s = (x, st')"
  shows "isConnected st' = isConnected st" and "deviceInfo st' = deviceInfo st"
    and "\<exists>ws. wire st' = wire st @ ws"
  using assms
  by (auto simp: upgradeSpeed_def write_data_def closePort_def Let_def
      split: option.splits sum.splits if_splits)

lemma connectAtBaudRate_answers:
  assumes "probeReply env b = Some r"
  shows "\<exists>st' info. connectAtBaudRate st env b True = (None, st') \<and>
           parseDeviceIdentification r = Some info \<and>
           isConnected st' \<and> deviceInfo st' = Some info \<and>
           (\<exists>ws. wire st' = wire st @ [Opened b, Wrote [0x1B, 0x39, 0x7B], Wrote [0x0C]] @ ws) \<and>
           (\<not> (autoUpgradeSpeed st \<and> b < maxSpeed info) \<longrightarrow>
              wire st' = wire st @ [Opened b, Wrote [0x1B, 0x39, 0x7B], Wrote [0x0C]] \<and>
              currentBaudRate st' = Some b \<and>
              port st' = Some \<lparr>baudRate = b, isOpen = True\<rparr>)"
proof -
  from assms have o: "\<not> openFails env b"
    and a: "awaitReply identificationReply [] (flushedBefore 200 (incoming env b)) = Some r"
    and i: "identificationReply r"
    by (rule probeReply_Some)+
  from i obtain info where info: "parseDeviceIdentification r = Some info"
    using parse_identificationReply by blast
  let ?st4 = "st\<lparr>currentBaudRate := Some b, port := Some \<lparr>baudRate = b, isOpen = True\<rparr>,
                 wire := wire st @ [Opened b, Wrote [0x1B, 0x39, 0x7B]],
                 deviceInfo := Some info, isConnected := True,
                 console := console st @ [LogConnected b]\<rparr>"
  let ?st5 = "?st4\<lparr>wire := wire st @ [Opened b, Wrote [0x1B, 0x39, 0x7B], Wrote [0x0C]]\<rparr>"
  have c: "clear ?st4 = Inr ?st5"
    by (simp add: clear_def write_data_def Buffer_from_def)
  show ?thesis
  proof (cases "autoUpgradeSpeed st \<and> b < maxSpeed info")
    case False
    have "connectAtBaudRate st env b True = (None, ?st5)"
      using o a info c False
      by (auto simp: connectAtBaudRate_def queryDevice_def Buffer_from_def Let_def)
    then show ?thesis using info False by simp
  next
    case True
    obtain x st6 where u: "upgradeSpeed ?st5 env (maxSpeed info) = (x, st6)"
      by (cases "upgradeSpeed ?st5 env (maxSpeed info)")
    from upgradeSpeed_frame [OF u] obtain ws where
      f: "isConnected st6" "deviceInfo st6 = Some info"
         "wire st6 = wire st @ [Opened b, Wrote [0x1B, 0x39, 0x7B], Wrote [0x0C]] @ ws"
      by auto
    have "ready ?st5" by (simp add: ready_def)
    then have s: "x \<noteq> Some NeverSettles"
      using upgradeSpeed_settles [of ?st5 env "maxSpeed info"] u by simp
    have "connectAtBaudRate st env b True =
        (None, st6\<lparr>console := console st6 @
           [case x of None \<Rightarrow> LogUpgraded b (maxSpeed info) | Some e \<Rightarrow> LogUpgradeFailed e]\<rparr>)"
      using o a info c True u s
      by (cases x) (simp_all add: connectAtBaudRate_def queryDevice_def Buffer_from_def Let_def)
    then show ?thesis using info True f by simp
  qed
qed

text \<open>
  C3. With the speed configuration \<^verbatim>\<open>'auto'\<close>, \<open>connect\<close> probes 1200, 4800 and 9600 in
  this order. A candidate whose port opens is sent the identification query, and what is
  awaited for 200 ms is a reply of at least 5 bytes that starts with \<open>SOH\<close>. A candidate
  that gives no reply (its port does not open, or no such reply can be made out of the
  input received within the 200 ms) has its port closed, when it opened, before the next
  one is opened. When all three give no reply, \<open>connect\<close> fails with the detection error
  after the three probes. When the candidates before one give no reply and the first
  input received from that one within the 200 ms is such a reply, the probing ends there:
  \<open>connect\<close> succeeds, the driver is connected with the descriptor parsed from the
  reply, and the screen is cleared; the driver is left at that candidate's speed
  whenever the speed upgrade does not apply (it is disabled, or the device's maximum
  speed is not higher); when it applies, more follows on the line. Nothing is said of a
  candidate whose reply comes after other input or in several pieces.
\<close>

theorem C3_connect_auto:
  "(optBaudRate st = Auto \<and> noReply env 1200 \<and> noReply env 4800 \<and> noReply env 9600 \<longrightarrow>
      fst (connect st env) = Some DetectionFailed \<and>
      wire (snd (connect st env)) =
        wire st @ failedProbe env 1200 @ failedProbe env 4800 @ failedProbe env 9600) \<and>
   (optBaudRate st = Auto \<and> [1200, 4800, 9600] = pre @ b # post \<and>
    (\<forall>c \<in> set pre. noReply env c) \<and> repliesAtOnce env b = Some r \<longrightarrow>
      5 \<le> length r \<and> r ! 0 = 0x01 \<and>
      fst (connect st env) = None \<and>
      isConnected (snd (connect st env)) \<and>
      deviceInfo (snd (connect st env)) = parseDeviceIdentification r \<and>
      parseDeviceIdentification r \<noteq> None \<and>
      (\<exists>ws. wire (snd (connect st env)) =
         wire st @ concat (map (failedProbe env) pre) @
         [Opened b, Wrote [0x1B, 0x39, 0x7B], Wrote [0x0C]] @ ws) \<and>
      (\<not> (autoUpgradeSpeed st \<and> b < maxSpeed (the (parseDeviceIdentification r))) \<longrightarrow>
         wire (snd (connect st env)) =
           wire st @ concat (map (failedProbe env) pre) @
           [Opened b, Wrote [0x1B, 0x39, 0x7B], Wrote [0x0C]] \<and>
         currentBaudRate (snd (connect st env)) = Some b \<and>
         port (snd (connect st env)) = Some \<lparr>baudRate = b, isOpen = True\<rparr>))"
proof (intro conjI impI)
  assume h: "optBaudRate st = Auto \<and> noReply env 1200 \<and> noReply env 4800 \<and> noReply env 9600"
  then have "\<forall>c \<in> set [1200, 4800, 9600]. probeReply env c = None"
    by (simp add: noReply_probeReply)
  then have "connectAuto st env ([1200, 4800, 9600] @ []) =
      connectAuto (foldl (afterFailedProbe env) st [1200, 4800, 9600]) env []"
    by (rule connectAuto_skip)
  then have c: "connect st env =
      (Some DetectionFailed, foldl (afterFailedProbe env) st [1200, 4800, 9600])"
    using h by (simp add: connect_def)
  show "fst (connect st env) = Some DetectionFailed" by (simp add: c)
  show "wire (snd (connect st env)) =
        wire st @ failedProbe env 1200 @ failedProbe env 4800 @ failedProbe env 9600"
    unfolding c by (simp add: afterFailedProbe_def)
next
  assume h0: "optBaudRate st = Auto \<and> [1200, 4800, 9600] = pre @ b # post \<and>
    (\<forall>c \<in> set pre. noReply env c) \<and> repliesAtOnce env b = Some r"
  then have h: "optBaudRate st = Auto \<and> [1200, 4800, 9600] = pre @ b # post \<and>
    (\<forall>c \<in> set pre. probeReply env c = None) \<and> probeReply env b = Some r"
    by (simp add: noReply_probeReply repliesAtOnce_probeReply)
  let ?st1 = "foldl (afterFailedProbe env) st pre"
  from h have skip: "connectAuto st env (pre @ b # post) = connectAuto ?st1 env (b # post)"
    using connectAuto_skip by blast
  from h have i: "identificationReply r" using probeReply_Some(3) by blast
  from h obtain st' info where
    a: "connectAtBaudRate ?st1 env b True = (None, st')"
    and p: "parseDeviceIdentification r = Some info"
    and f: "isConnected st'" "deviceInfo st' = Some info"
    and w: "\<exists>ws. wire st' = wire ?st1 @ [Opened b, Wrote [0x1B, 0x39, 0x7B], Wrote [0x0C]] @ ws"
    and n: "\<not> (autoUpgradeSpeed ?st1 \<and> b < maxSpeed info) \<longrightarrow>
              wire st' = wire ?st1 @ [Opened b, Wrote [0x1B, 0x39, 0x7B], Wrote [0x0C]] \<and>
              currentBaudRate st' = Some b \<and>
              port st' = Some \<lparr>baudRate = b, isOpen = True\<rparr>"
    using connectAtBaudRate_answers [of env b r ?st1] by blast
  have c: "connect st env = (None, st')"
    using h skip a by (simp add: connect_def)
  show "5 \<le> length r" "r ! 0 = 0x01" using i by (simp_all add: identificationReply_def)
  show "fst (connect st env) = None" by (simp add: c)
  show "isConnected (snd (connect st env))" using f by (simp add: c)
  show "deviceInfo (snd (connect st env)) = parseDeviceIdentification r"
    using f p by (simp add: c)
  show "parseDeviceIdentification r \<noteq> None" using p by simp
  show "\<exists>ws. wire (snd (connect st env)) =
         wire st @ concat (map (failedProbe env) pre) @
         [Opened b, Wrote [0x1B, 0x39, 0x7B], Wrote [0x0C]] @ ws"
    using w by (simp add: c foldl_afterFailedProbe)
  assume "\<not> (autoUpgradeSpeed st \<and> b < maxSpeed (the (parseDeviceIdentification r)))"
  then have *: "wire st' = wire ?st1 @ [Opened b, Wrote [0x1B, 0x39, 0x7B], Wrote [0x0C]] \<and>
              currentBaudRate st' = Some b \<and>
              port st' = Some \<lparr>baudRate = b, isOpen = True\<rparr>"
    using n p by (simp add: foldl_afterFailedProbe)
  show "wire (snd (connect st env)) =
           wire st @ concat (map (failedProbe env) pre) @
           [Opened b, Wrote [0x1B, 0x39, 0x7B], Wrote [0x0C]]"
    using * by (simp add: c foldl_afterFailedProbe)
  show "currentBaudRate (snd (connect st env)) = Some b" using * by (simp add: c)
  show "port (snd (connect st env)) = Some \<lparr>baudRate = b, isOpen = True\<rparr>"
    using * by (simp add: c)
qed

lemmas connect_defs =
  connect_def connectAtBaudRate_def queryDevice_def upgradeSpeed_def closePort_def clear_def
  write_data_def speedCodes_def flushedBefore_def parseDeviceIdentification_def
  typeLookup_def bytes_of_def identificationReply_def Buffer_from_def new_Minitel_def

lemma probe_samples:
  "noReply minitel1b_at_4800 1200"
  "repliesAtOnce minitel1b_at_4800 4800 = Some [0x01, 0x43, 0x75, 0x32, 0x04]"
  "noReply silent_line 1200" "noReply silent_line 4800" "noReply silent_line 9600"
  "repliesAtOnce minitel2_at_1200 1200 = Some [0x01, 0x43, 0x76, 0x3B, 0x04]"
  by (simp_all add: noReply_def repliesAtOnce_def minitel1b_at_4800_def silent_line_def
      minitel2_at_1200_def flushedBefore_def identificationReply_def)

lemma parse_samples:
  "parseDeviceIdentification [0x01, 0x43, 0x75, 0x32, 0x04] =
     Some \<lparr>maxSpeed = 4800, constructeur = 0x43, dtype = 0x75, version = 0x32\<rparr>"
  "parseDeviceIdentification [0x01, 0x43, 0x76, 0x3B, 0x04] =
     Some \<lparr>maxSpeed = 9600, constructeur = 0x43, dtype = 0x76, version = 0x3B\<rparr>"
  by (simp_all add: parseDeviceIdentification_def typeLookup_def bytes_of_def)

text \<open>
  Only the second candidate replies, the first having received a stray byte: the port of
  the first is closed before the second is opened, and the driver is left at 4800 bauds.
  Nothing replies: three probes, then the error.
\<close>

theorem C3_witness:
  "fst (connect (new_Minitel Auto True) minitel1b_at_4800) = None \<and>
   wire (snd (connect (new_Minitel Auto True) minitel1b_at_4800)) =
     [Opened 1200, Wrote [0x1B, 0x39, 0x7B], Closed 1200,
      Opened 4800, Wrote [0x1B, 0x39, 0x7B], Wrote [0x0C]] \<and>
   currentBaudRate (snd (connect (new_Minitel Auto True) minitel1b_at_4800)) = Some 4800 \<and>
   fst (connect (new_Minitel Auto True) silent_line) = Some DetectionFailed \<and>
   wire (snd (connect (new_Minitel Auto True) silent_line)) =
     [Opened 1200, Wrote [0x1B, 0x39, 0x7B], Closed 1200,
      Opened 4800, Wrote [0x1B, 0x39, 0x7B], Closed 4800,
      Opened 9600, Wrote [0x1B, 0x39, 0x7B], Closed 9600]"
proof -
  let ?st = "new_Minitel Auto True"
  have st: "optBaudRate ?st = Auto" "wire ?st = []" "autoUpgradeSpeed ?st"
    by (simp_all add: new_Minitel_def)
  have fp: "failedProbe minitel1b_at_4800 1200 = [Opened 1200, Wrote [0x1B, 0x39, 0x7B], Closed 1200]"
    "failedProbe silent_line 1200 = [Opened 1200, Wrote [0x1B, 0x39, 0x7B], Closed 1200]"
    "failedProbe silent_line 4800 = [Opened 4800, Wrote [0x1B, 0x39, 0x7B], Closed 4800]"
    "failedProbe silent_line 9600 = [Opened 9600, Wrote [0x1B, 0x39, 0x7B], Closed 9600]"
    by (simp_all add: failedProbe_def minitel1b_at_4800_def silent_line_def Buffer_from_def)
  have second: "fst (connect ?st minitel1b_at_4800) = None \<and>
      wire (snd (connect ?st minitel1b_at_4800)) =
        [Opened 1200, Wrote [0x1B, 0x39, 0x7B], Closed 1200,
         Opened 4800, Wrote [0x1B, 0x39, 0x7B], Wrote [0x0C]] \<and>
      currentBaudRate (snd (connect ?st minitel1b_at_4800)) = Some 4800"
    using C3_connect_auto [of ?st minitel1b_at_4800 "[1200]" 4800 "[9600]"
        "[0x01, 0x43, 0x75, 0x32, 0x04]"] st probe_samples parse_samples fp
    by simp
  have none: "fst (connect ?st silent_line) = Some DetectionFailed \<and>
      wire (snd (connect ?st silent_line)) =
        [Opened 1200, Wrote [0x1B, 0x39, 0x7B], Closed 1200,
         Opened 4800, Wrote [0x1B, 0x39, 0x7B], Closed 4800,
         Opened 9600, Wrote [0x1B, 0x39, 0x7B], Closed 9600]"
    using C3_connect_auto [of ?st silent_line] st probe_samples fp by simp
  from second none show ?thesis by simp
qed

text \<open>
  The driver is not always left at the speed of the candidate that replied: with the
  default configuration a Minitel 2 that replies at once to the first candidate, 1200
  bauds, is upgraded, and \<open>connect\<close> leaves the driver at 9600 bauds.
\<close>

theorem C3_counterexample:
  "repliesAtOnce minitel2_at_1200 1200 = Some [0x01, 0x43, 0x76, 0x3B, 0x04] \<and>
   fst (connect (new_Minitel Auto True) minitel2_at_1200) = None \<and>
   currentBaudRate (snd (connect (new_Minitel Auto True) minitel2_at_1200)) = Some 9600 \<and>
   port (snd (connect (new_Minitel Auto True) minitel2_at_1200))
     = Some \<lparr>baudRate = 9600, isOpen = True\<rparr>"
proof -
  have "connect (new_Minitel Auto True) minitel2_at_1200 =
      (None, (new_Minitel Auto True)
        \<lparr>port := Some \<lparr>baudRate = 9600, isOpen = True\<rparr>, isConnected := True,
         deviceInfo := Some \<lparr>maxSpeed = 9600, constructeur = 0x43, dtype = 0x76,
                              version = 0x3B\<rparr>,
         currentBaudRate := Some 9600,
         wire := [Opened 1200, Wrote [0x1B, 0x39, 0x7B], Wrote [0x0C],
                  Wrote [0x1B, 0x3A, 0x6B, 0x7F], Closed 1200, Opened 9600],
         console := [LogConnected 1200, LogUpgraded 1200 9600]\<rparr>)"
    by (simp add: connect_defs minitel2_at_1200_def)
  then show ?thesis by (simp add: probe_samples)
qed

text \<open>
  A candidate of neither kind: the identification reply of a Minitel 1B is flushed 150 ms
  after the query at 1200 bauds, a stray byte having been flushed before it. The wait
  tests all that was received since it began, which does not start with \<open>SOH\<close>, so the
  candidate times out and \<open>connect\<close> fails after the three probes.
\<close>

lemma connect_reply_after_noise:
  "repliesAtOnce minitel1b_after_noise 1200 = None \<and> \<not> noReply minitel1b_after_noise 1200 \<and>
   identificationReply [0x01, 0x43, 0x75, 0x32, 0x04] \<and>
   fst (connect (new_Minitel Auto True) minitel1b_after_noise) = Some DetectionFailed \<and>
   wire (snd (connect (new_Minitel Auto True) minitel1b_after_noise)) =
     [Opened 1200, Wrote [0x1B, 0x39, 0x7B], Closed 1200,
      Opened 4800, Wrote [0x1B, 0x39, 0x7B], Closed 4800,
      Opened 9600, Wrote [0x1B, 0x39, 0x7B], Closed 9600]"
  by (simp add: connect_defs repliesAtOnce_def noReply_def minitel1b_after_noise_def)

text \<open>
  C4. For a Minitel 2 identified at 1200 bauds the speed-change command for 9600 bauds is
  sent, the port is closed and a port is opened at 9600 bauds. For a Minitel 1B
  identified at 1200 bauds, when the port cannot be reopened at 4800 bauds, \<open>connect\<close>
  still succeeds and the failure is logged, but the driver is not left at the original
  speed: the speed recorded is the new one, the only port is the one that failed to
  open, and the next write (here \<open>clear\<close>) never completes.
\<close>

theorem C4_upgrade_failure:
  "wire (snd (connect (new_Minitel Auto True) minitel2_at_1200)) =
     [Opened 1200, Wrote [0x1B, 0x39, 0x7B], Wrote [0x0C], Wrote [0x1B, 0x3A, 0x6B, 0x7F],
      Closed 1200, Opened 9600] \<and>
   console (snd (connect (new_Minitel Auto True) minitel2_at_1200)) =
     [LogConnected 1200, LogUpgraded 1200 9600] \<and>
   fst (connect (new_Minitel Auto True) minitel1b_reopen_fails) = None \<and>
   console (snd (connect (new_Minitel Auto True) minitel1b_reopen_fails)) =
     [LogConnected 1200, LogUpgradeFailed ReconnectError] \<and>
   wire (snd (connect (new_Minitel Auto True) minitel1b_reopen_fails)) =
     [Opened 1200, Wrote [0x1B, 0x39, 0x7B], Wrote [0x0C], Wrote [0x1B, 0x3A, 0x6B, 0x76],
      Closed 1200, OpenFailed 4800] \<and>
   currentBaudRate (snd (connect (new_Minitel Auto True) minitel1b_reopen_fails)) = Some 4800 \<and>
   port (snd (connect (new_Minitel Auto True) minitel1b_reopen_fails))
     = Some \<lparr>baudRate = 4800, isOpen = False\<rparr> \<and>
   isConnected (snd (connect (new_Minitel Auto True) minitel1b_reopen_fails)) \<and>
   clear (snd (connect (new_Minitel Auto True) minitel1b_reopen_fails)) = Inl NeverSettles"
  by (simp add: connect_defs minitel1b_reopen_fails_def minitel2_at_1200_def)


end
